theory Spec2Isabelle
  imports Main "HOL-Library.AList"
begin

section \<open>Values of the JavaScript runtime\<close>

text \<open>
  The client is TypeScript; the payloads it receives are typed \<^verbatim>\<open>any\<close>. A payload is a
  JSON value, and \<^verbatim>\<open>undefined\<close> is the missing value \<open>None\<close>. An object is the list of
  its properties (first entry of a name wins). Numbers are integers (seconds, milliseconds,
  identifiers and status codes are integral), with \<open>None\<close> for \<^verbatim>\<open>NaN\<close>. The arithmetic of
  the session's expiry is that of doubles: \<open>to_double\<close> rounds, and a \<^verbatim>\<open>Date\<close> clips its time
  value. The subtractions of the timer's delay are exact: their rounding, which takes values
  beyond \<open>2 ^ 53\<close>, is outside the model. So are the infinities: a result beyond the largest
  double is \<open>None\<close>.
\<close>

datatype json =
    JNull
  | JBool bool
  | JNum int
  | JStr string
  | JArr "json list"
  | JObj "(string \<times> json) list"

type_synonym any = "json option"

type_synonym number = "int option"

text \<open>A \<^verbatim>\<open>Date\<close> is its time value in milliseconds (\<^verbatim>\<open>NaN\<close> for an invalid date).\<close>

type_synonym Date = number

definition num_add :: "number \<Rightarrow> number \<Rightarrow> number" where
  "num_add a b = (case a of None \<Rightarrow> None | Some x \<Rightarrow> (case b of None \<Rightarrow> None | Some y \<Rightarrow> Some (x + y)))"

definition num_sub :: "number \<Rightarrow> number \<Rightarrow> number" where
  "num_sub a b = (case a of None \<Rightarrow> None | Some x \<Rightarrow> (case b of None \<Rightarrow> None | Some y \<Rightarrow> Some (x - y)))"

definition num_mul :: "number \<Rightarrow> number \<Rightarrow> number" where
  "num_mul a b = (case a of None \<Rightarrow> None | Some x \<Rightarrow> (case b of None \<Rightarrow> None | Some y \<Rightarrow> Some (x * y)))"

text \<open>\<^verbatim>\<open>a > b\<close>: false as soon as one side is \<^verbatim>\<open>NaN\<close>.\<close>

definition num_gt :: "number \<Rightarrow> number \<Rightarrow> bool" where
  "num_gt a b = (case a of None \<Rightarrow> False | Some x \<Rightarrow> (case b of None \<Rightarrow> False | Some y \<Rightarrow> y < x))"

subsection \<open>Doubles and dates\<close>

text \<open>
  A double has a significand of 53 bits. \<open>quantum m\<close> is the distance between the doubles
  around the magnitude \<open>m\<close>: 1 below \<open>2 ^ 53\<close>, 2 below \<open>2 ^ 54\<close>, and so on.
\<close>

function quantum :: "nat \<Rightarrow> nat" where
  "quantum m = (if m < 9007199254740992 then 1 else 2 * quantum (m div 2))"
  by pat_completeness auto
termination
  by (relation "measure (\<lambda>m. m)") auto

declare quantum.simps [simp del]

text \<open>The double nearest to an integer, ties to the even significand; not finite from
  \<open>2 ^ 1024\<close> on.\<close>

definition to_double :: "int \<Rightarrow> number" where
  "to_double x =
     (let q = int (quantum (nat \<bar>x\<bar>));
          lo = (x div q) * q;
          r = x - lo;
          y = (if 2 * r < q then lo
               else if q < 2 * r then lo + q
               else if even (x div q) then lo else lo + q)
      in if \<bar>y\<bar> < 2 ^ 1024 then Some y else None)"

text \<open>\<^verbatim>\<open>a + b\<close> and \<^verbatim>\<open>a * b\<close> on doubles: the exact result, rounded.\<close>

definition double_add :: "number \<Rightarrow> number \<Rightarrow> number" where
  "double_add a b = (case a of None \<Rightarrow> None | Some x \<Rightarrow> (case b of None \<Rightarrow> None | Some y \<Rightarrow> to_double (x + y)))"

definition double_mul :: "number \<Rightarrow> number \<Rightarrow> number" where
  "double_mul a b = (case a of None \<Rightarrow> None | Some x \<Rightarrow> (case b of None \<Rightarrow> None | Some y \<Rightarrow> to_double (x * y)))"

text \<open>The time value a \<^verbatim>\<open>Date\<close> keeps of a number (TimeClip): \<^verbatim>\<open>NaN\<close>, an invalid date,
  beyond 8.64e15 milliseconds on either side of 1970.\<close>

definition TimeClip :: "number \<Rightarrow> Date" where
  "TimeClip t =
     (case t of
        None \<Rightarrow> None
      | Some x \<Rightarrow> if \<bar>x\<bar> \<le> 8640000000000000 then Some x else None)"

subsection \<open>Errors\<close>

record http_response =
  status :: int
  data :: any

text \<open>
  What a \<^verbatim>\<open>catch\<close> can receive: \<open>Failure m r\<close> is an error thrown by a collaborator (the
  transport, the storage, the key generation), with its \<^verbatim>\<open>response\<close> property when the
  server answered; \<open>Error m\<close> is \<^verbatim>\<open>new Error(m)\<close>; \<open>TypeError\<close> is the runtime's error on
  reading or writing a property of \<^verbatim>\<open>undefined\<close>, \<^verbatim>\<open>null\<close> or (writing) a primitive;
  \<open>SessionError\<close> is the object \<^verbatim>\<open>{ errorCode, error }\<close> thrown by \<^verbatim>\<open>generateSession\<close>.
  \<^verbatim>\<open>Helpers/ErrorCodes\<close> is not among the sources: \<open>errorCode\<close> holds the name of the member
  of \<^verbatim>\<open>this.errorCodes\<close> that the source reads.
\<close>

datatype error =
    Failure string "http_response option"
  | Error string
  | TypeError
  | SessionError (errorCode: string) (error: error)

text \<open>\<^verbatim>\<open>error.response\<close>\<close>

fun response :: "error \<Rightarrow> http_response option" where
  "response (Failure m r) = r"
| "response (Error m) = None"
| "response TypeError = None"
| "response (SessionError c e) = None"

subsection \<open>Property access\<close>

text \<open>\<^verbatim>\<open>v.k\<close>: a TypeError on \<^verbatim>\<open>undefined\<close> and \<^verbatim>\<open>null\<close>, \<^verbatim>\<open>undefined\<close> on a primitive
  or an array (none of the names read here is a property of their prototypes).\<close>

fun get_prop :: "any \<Rightarrow> string \<Rightarrow> error + any" where
  "get_prop None k = Inl TypeError"
| "get_prop (Some JNull) k = Inl TypeError"
| "get_prop (Some (JObj kvs)) k = Inr (map_of kvs k)"
| "get_prop (Some v) k = Inr None"

text \<open>\<^verbatim>\<open>v[0]\<close>\<close>

fun index0 :: "any \<Rightarrow> error + any" where
  "index0 None = Inl TypeError"
| "index0 (Some JNull) = Inl TypeError"
| "index0 (Some (JArr xs)) = Inr (case xs of [] \<Rightarrow> None | x # _ \<Rightarrow> Some x)"
| "index0 (Some (JStr s)) = Inr (case s of [] \<Rightarrow> None | ch # _ \<Rightarrow> Some (JStr [ch]))"
| "index0 (Some (JObj kvs)) = Inr (map_of kvs ''0'')"
| "index0 (Some v) = Inr None"

text \<open>\<^verbatim>\<open>o[k] = v\<close> in strict mode (class bodies are strict). A property that holds
  \<^verbatim>\<open>undefined\<close> reads like a missing one, so storing \<^verbatim>\<open>undefined\<close> removes the entry. A
  named property stored on an array is not an element and is not represented (it is lost
  when the value is serialised, too).\<close>

fun set_prop :: "any \<Rightarrow> string \<Rightarrow> any \<Rightarrow> error + any" where
  "set_prop (Some (JObj kvs)) k (Some v) = Inr (Some (JObj (AList.update k v kvs)))"
| "set_prop (Some (JObj kvs)) k None = Inr (Some (JObj (AList.delete k kvs)))"
| "set_prop (Some (JArr xs)) k v = Inr (Some (JArr xs))"
| "set_prop w k v = Inl TypeError"

text \<open>The truth value of \<^verbatim>\<open>!!v\<close>.\<close>

fun truthy :: "any \<Rightarrow> bool" where
  "truthy None = False"
| "truthy (Some JNull) = False"
| "truthy (Some (JBool b)) = b"
| "truthy (Some (JNum n)) = (n \<noteq> 0)"
| "truthy (Some (JStr s)) = (s \<noteq> [])"
| "truthy (Some (JArr xs)) = True"
| "truthy (Some (JObj kvs)) = True"

text \<open>What the process gives the client: \<^verbatim>\<open>process.env\<close> (\<open>None\<close> where \<^verbatim>\<open>process\<close> is
  undefined, as in a browser), the parsing of a date string, and the numeric conversion of
  strings, arrays and objects.\<close>

record runtime =
  process_env :: "(string \<Rightarrow> string option) option"
  Date_parse :: "string \<Rightarrow> number"
  ToNumber_other :: "json \<Rightarrow> number"

definition ToNumber :: "runtime \<Rightarrow> any \<Rightarrow> number" where
  "ToNumber rt v =
     (case v of
        None \<Rightarrow> None
      | Some JNull \<Rightarrow> Some 0
      | Some (JBool b) \<Rightarrow> Some (if b then 1 else 0)
      | Some (JNum n) \<Rightarrow> to_double n
      | Some w \<Rightarrow> ToNumber_other rt w)"

text \<open>\<^verbatim>\<open>new Date(s)\<close> for a string \<open>s\<close>.\<close>

definition new_Date :: "runtime \<Rightarrow> string \<Rightarrow> Date" where
  "new_Date rt s = TimeClip (Date_parse rt s)"

section \<open>The client and its session\<close>

text \<open>A key is a handle on a key object of the crypto library.\<close>

type_synonym key = nat

text \<open>The fields of \<^verbatim>\<open>Session\<close> that \<^verbatim>\<open>BunqJSClient\<close> reads and writes; \<open>None\<close> is
  \<^verbatim>\<open>null\<close>. \<open>sessionExpiryTimeChecker\<close> is the handle \<^verbatim>\<open>setTimeout\<close> returned.\<close>

record session =
  publicKey :: "key option"
  privateKey :: "key option"
  serverPublicKeyPem :: "string option"
  serverPublicKey :: "key option"
  installToken :: "string option"
  installUpdated :: "Date option"
  installCreated :: "Date option"
  deviceId :: any
  isOAuthKey :: bool
  userInfo :: any
  sessionExpiryTime :: "Date option"
  sessionTimeout :: number
  sessionId :: any
  sessionToken :: any
  sessionTokenId :: any
  sessionExpiryTimeChecker :: "nat option"

text \<open>The calls the client makes on its collaborators, in the order it makes them.\<close>

datatype event =
    Session_setup
  | ApiAdapter_setup
  | Api_installation_add
  | Api_deviceRegistration_add string "string list"
  | Api_sessionServer_add
  | Api_sessionServer_delete
  | Api_user_list
  | ApiAdapter_post string
  | ApiAdapter_get string
  | Rsa_publicKeyFromPem string
  | Session_setupKeypair bool
  | Session_storeSession session
  | Session_destroySession
  | Session_destroyApiSession bool
  | Logger_debug string
  | Logger_error_text string any
  | Logger_error error

text \<open>
  The object and the part of the world it acts on. \<open>fetchingNewSession\<close> is \<open>None\<close> for
  \<^verbatim>\<open>false\<close> and \<open>Some p\<close> for the promise \<open>p\<close>; \<open>nextPromise\<close> numbers the promises of
  \<^verbatim>\<open>generateSession\<close>. \<open>timers\<close> are the timeouts armed and not cleared (handle, delay in
  milliseconds), \<open>nextTimer\<close> the next handle. \<open>trace\<close> lists the collaborator calls so far.
\<close>

record client =
  Session :: session
  apiKey :: "string option"
  allowedIps :: "string list"
  keepAlive :: bool
  fetchingNewSession :: "nat option"
  nextPromise :: nat
  timers :: "(nat \<times> number) list"
  nextTimer :: nat
  trace :: "event list"

definition emit :: "event \<Rightarrow> client \<Rightarrow> client" where
  "emit ev c = c\<lparr>trace := trace c @ [ev]\<rparr>"

definition FIVE_MINUTES_MS :: int where
  "FIVE_MINUTES_MS = 300000"

text \<open>\<^verbatim>\<open>Session.ts\<close> is not among the sources. Its three \<^verbatim>\<open>verify...\<close> methods are
  parameters of the operations that call them.\<close>

record session_methods =
  verifyInstallation :: "session \<Rightarrow> bool"
  verifyDeviceInstallation :: "session \<Rightarrow> bool"
  verifySessionInstallation :: "session \<Rightarrow> bool"

text \<open>\<^verbatim>\<open>await this.Session.storeSession()\<close>: the call, with the session it persists, and
  its outcome.\<close>

definition storeSession :: "error + unit \<Rightarrow> client \<Rightarrow> (error + unit) \<times> client" where
  "storeSession outcome c = (outcome, emit (Session_storeSession (Session c)) c)"

text \<open>Modelled from the spec: \<^verbatim>\<open>Session.setupKeypair\<close> (\<^verbatim>\<open>ensureKeyPair\<close> in the spec,
  \<^verbatim>\<open>Session.ts\<close> is not among the sources). With \<open>force\<close> set, or without a stored private
  key, it generates a new key pair and keeps it; a failure of the generation or of the
  storage propagates.\<close>

definition setupKeypair :: "bool \<Rightarrow> error + key \<times> key \<Rightarrow> client \<Rightarrow> (error + unit) \<times> client" where
  "setupKeypair force outcome c =
     (let c1 = emit (Session_setupKeypair force) c in
      if force \<or> privateKey (Session c1) = None then
        (case outcome of
           Inl e \<Rightarrow> (Inl e, c1)
         | Inr (priv, pub) \<Rightarrow>
             (Inr (), c1\<lparr>Session := (Session c1)\<lparr>privateKey := Some priv, publicKey := Some pub\<rparr>\<rparr>))
      else (Inr (), c1))"

section \<open>Principal classification\<close>

record parsed_user =
  info :: any
  type :: string
  isOAuth :: bool

definition getUserType :: "any \<Rightarrow> error + parsed_user" where
  "getUserType ui =
     (case get_prop ui ''UserCompany'' of
        Inl e \<Rightarrow> Inl e
      | Inr (Some v) \<Rightarrow> Inr \<lparr>info = Some v, type = ''UserCompany'', isOAuth = False\<rparr>
      | Inr None \<Rightarrow>
     (case get_prop ui ''UserPerson'' of
        Inl e \<Rightarrow> Inl e
      | Inr (Some v) \<Rightarrow> Inr \<lparr>info = Some v, type = ''UserPerson'', isOAuth = False\<rparr>
      | Inr None \<Rightarrow>
     (case get_prop ui ''UserLight'' of
        Inl e \<Rightarrow> Inl e
      | Inr (Some v) \<Rightarrow> Inr \<lparr>info = Some v, type = ''UserLight'', isOAuth = False\<rparr>
      | Inr None \<Rightarrow>
     (case get_prop ui ''UserApiKey'' of
        Inl e \<Rightarrow> Inl e
      | Inr (Some v) \<Rightarrow> Inr \<lparr>info = Some v, type = ''UserApiKey'', isOAuth = True\<rparr>
      | Inr None \<Rightarrow>
          Inl (Error ''No supported account type found! (Not one of UserLight, UserPerson, UserApiKey or UserCompany)'')))))"


text \<open>\<^verbatim>\<open>parseOauthUser\<close>: the nested principals are classified, the timeout is read from the
  requested-by principal, the granted-by principal gets the outer identifier when its own
  is falsy, and is stored under \<^verbatim>\<open>UserApiKey\<close> of the session's user info. The statement
  \<^verbatim>\<open>this.Session.isOAuthKey;\<close> of the source reads the flag and assigns nothing.\<close>

definition parseOauthUser :: "parsed_user \<Rightarrow> client \<Rightarrow> (error + any) \<times> client" where
  "parseOauthUser userInfoParsed c =
     (case get_prop (info userInfoParsed) ''requested_by_user'' of
        Inl e \<Rightarrow> (Inl e, c)
      | Inr requested_by_user \<Rightarrow>
     (case getUserType requested_by_user of
        Inl e \<Rightarrow> (Inl e, c)
      | Inr requestedByUserParsed \<Rightarrow>
     (case get_prop (info userInfoParsed) ''granted_by_user'' of
        Inl e \<Rightarrow> (Inl e, c)
      | Inr granted_by_user \<Rightarrow>
     (case getUserType granted_by_user of
        Inl e \<Rightarrow> (Inl e, c)
      | Inr grantedByUserParsed \<Rightarrow>
     (case get_prop (info requestedByUserParsed) ''session_timeout'' of
        Inl e \<Rightarrow> (Inl e, c)
      | Inr session_timeout \<Rightarrow>
     (let c1 = emit (Logger_debug ''Received requestedByUserParsed.info.session_timeout from api: '') c in
      case get_prop (info grantedByUserParsed) ''id'' of
        Inl e \<Rightarrow> (Inl e, c1)
      | Inr granted_id \<Rightarrow>
     (case (if \<not> truthy granted_id
            then (case get_prop (info userInfoParsed) ''id'' of
                    Inl e \<Rightarrow> Inl e
                  | Inr outer_id \<Rightarrow> set_prop (info grantedByUserParsed) ''id'' outer_id)
            else Inr (info grantedByUserParsed)) of
        Inl e \<Rightarrow> (Inl e, c1)
      | Inr granted_info \<Rightarrow>
     (case set_prop (userInfo (Session c1)) ''UserApiKey'' granted_info of
        Inl e \<Rightarrow> (Inl e, c1)
      | Inr ui \<Rightarrow> (Inr session_timeout, c1\<lparr>Session := (Session c1)\<lparr>userInfo := ui\<rparr>\<rparr>)))))))))"

section \<open>The expiry timer\<close>

text \<open>\<^verbatim>\<open>clearTimeout\<close> on the stored handle; the handle itself stays in the session.\<close>

definition clearExpiryTimer :: "client \<Rightarrow> client" where
  "clearExpiryTimer c =
     (case sessionExpiryTimeChecker (Session c) of
        None \<Rightarrow> c
      | Some h \<Rightarrow> c\<lparr>timers := filter (\<lambda>t. fst t \<noteq> h) (timers c)\<rparr>)"

text \<open>\<^verbatim>\<open>typeof process !== "undefined" && process.env.ENV_CI === "true"\<close>\<close>

definition in_CI :: "runtime \<Rightarrow> bool" where
  "in_CI rt = (case process_env rt of None \<Rightarrow> False | Some env \<Rightarrow> env ''ENV_CI'' = Some ''true'')"

text \<open>\<open>now\<close> is the time value of \<^verbatim>\<open>new Date()\<close>. The result is what the source returns:
  \<^verbatim>\<open>false\<close>, or nothing.\<close>

definition setExpiryTimer :: "runtime \<Rightarrow> int \<Rightarrow> bool \<Rightarrow> client \<Rightarrow> bool option \<times> client" where
  "setExpiryTimer rt now shortTimeout c =
     (if in_CI rt then (Some False, c)
      else if keepAlive c = False then (Some False, clearExpiryTimer c)
      else (case sessionExpiryTime (Session c) of
              None \<Rightarrow> (None, c)
            | Some expiry \<Rightarrow>
                (let remaining = num_sub expiry (Some now);
                     expiresInMilliseconds =
                       (if shortTimeout
                        then (if num_gt (sessionTimeout (Session c)) (Some FIVE_MINUTES_MS)
                              then Some FIVE_MINUTES_MS
                              else sessionTimeout (Session c))
                        else remaining);
                     timeoutRequestDuration = num_sub expiresInMilliseconds (Some 15000);
                     c1 = clearExpiryTimer c;
                     h = nextTimer c1
                 in (None, c1\<lparr>timers := timers c1 @ [(h, timeoutRequestDuration)],
                               nextTimer := Suc h,
                               Session := (Session c1)\<lparr>sessionExpiryTimeChecker := Some h\<rparr>\<rparr>))))"

section \<open>Installation and device registration\<close>

record installation_response =
  inst_serverPublicKey :: string
  inst_token :: string
  inst_token_updated :: string
  inst_token_created :: string

text \<open>The outcomes of the awaited calls are arguments: of \<^verbatim>\<open>api.installation.add()\<close>, of
  \<^verbatim>\<open>publicKeyFromPem\<close> and of \<^verbatim>\<open>storeSession\<close>.\<close>

definition install ::
  "session_methods \<Rightarrow> runtime \<Rightarrow> error + installation_response \<Rightarrow> error + key \<Rightarrow> error + unit \<Rightarrow>
   client \<Rightarrow> (error + bool) \<times> client" where
  "install sm rt add_outcome pem_outcome store_outcome c =
     (if verifyInstallation sm (Session c) = False then
        if publicKey (Session c) = None then
          (Inl (Error ''No public key is set yet, make sure you setup an encryption key with BunqJSClient->setup()''), c)
        else
          (let c1 = emit Api_installation_add c in
           case add_outcome of
             Inl e \<Rightarrow> (Inl e, c1)
           | Inr r \<Rightarrow>
               (let c2 = c1\<lparr>Session := (Session c1)\<lparr>serverPublicKeyPem := Some (inst_serverPublicKey r)\<rparr>\<rparr>;
                    c3 = emit (Rsa_publicKeyFromPem (inst_serverPublicKey r)) c2
                in case pem_outcome of
                     Inl e \<Rightarrow> (Inl e, c3)
                   | Inr k \<Rightarrow>
                       (let c4 = c3\<lparr>Session := (Session c3)
                                  \<lparr>serverPublicKey := Some k,
                                   installToken := Some (inst_token r),
                                   installUpdated := Some (new_Date rt (inst_token_updated r)),
                                   installCreated := Some (new_Date rt (inst_token_created r))\<rparr>\<rparr>
                        in case storeSession store_outcome c4 of
                             (Inl e, c5) \<Rightarrow> (Inl e, c5)
                           | (Inr u, c5) \<Rightarrow> (Inr True, c5))))
      else (Inr True, c))"

text \<open>The installation is destroyed: the five assignments of \<^verbatim>\<open>null\<close> in the
  \<^verbatim>\<open>catch\<close> of \<^verbatim>\<open>registerDevice\<close>.\<close>

definition destroyInstallation :: "session \<Rightarrow> session" where
  "destroyInstallation s =
     s\<lparr>serverPublicKeyPem := None, serverPublicKey := None, installToken := None,
       installUpdated := None, installCreated := None\<rparr>"

text \<open>\<open>store_try\<close> is the outcome of the \<^verbatim>\<open>storeSession\<close> inside the \<^verbatim>\<open>try\<close>,
  \<open>store_catch\<close> of the one inside the \<^verbatim>\<open>catch\<close>.\<close>

definition registerDevice ::
  "session_methods \<Rightarrow> string \<Rightarrow> error + any \<Rightarrow> error + unit \<Rightarrow> error + key \<times> key \<Rightarrow> error + unit \<Rightarrow>
   client \<Rightarrow> (error + bool) \<times> client" where
  "registerDevice sm deviceName add_outcome store_try keypair_outcome store_catch c =
     (if verifyDeviceInstallation sm (Session c) = False then
        (let c1 = emit (Api_deviceRegistration_add deviceName (allowedIps c)) c in
         case (case add_outcome of
                 Inl e \<Rightarrow> (Inl e, c1)
               | Inr new_id \<Rightarrow> storeSession store_try (c1\<lparr>Session := (Session c1)\<lparr>deviceId := new_id\<rparr>\<rparr>)) of
           (Inr u, c2) \<Rightarrow> (Inr True, c2)
         | (Inl err, c2) \<Rightarrow>
             (case response err of
                None \<Rightarrow> (Inl err, c2)
              | Some r \<Rightarrow>
                  if status r = 400 then
                    (let c3 = c2\<lparr>Session := destroyInstallation (Session c2)\<rparr> in
                     case setupKeypair True keypair_outcome c3 of
                       (Inl e, c4) \<Rightarrow> (Inl e, c4)
                     | (Inr u, c4) \<Rightarrow>
                         (case storeSession store_catch c4 of
                            (Inl e, c5) \<Rightarrow> (Inl e, c5)
                          | (Inr u', c5) \<Rightarrow> (Inl err, c5)))
                  else (Inl err, c2)))
      else (Inr True, c))"

section \<open>Session creation\<close>

record session_response =
  resp_id :: any
  token_id :: any
  token_token :: any
  token_created :: string
  user_info :: any

text \<open>
  An \<^verbatim>\<open>async\<close> function runs up to its first \<^verbatim>\<open>await\<close> when it is called, and the rest
  when the awaited promise settles. \<open>generateSession_call\<close> is the first part of
  \<^verbatim>\<open>generateSession\<close>: the log line and the request \<^verbatim>\<open>this.api.sessionServer.add()\<close>.
\<close>

definition generateSession_call :: "client \<Rightarrow> client" where
  "generateSession_call c = emit Api_sessionServer_add (emit (Logger_debug '' === Attempting to fetch session'') c)"

text \<open>The \<^verbatim>\<open>catch\<close> of \<^verbatim>\<open>generateSession\<close> reads
  \<^verbatim>\<open>error.response.data.Error[0].error_description\<close> when \<^verbatim>\<open>error.response\<close> and
  \<^verbatim>\<open>error.response.data.Error\<close> are truthy. The result is the description to log,
  \<open>None\<close> when there is nothing to log, or the TypeError of a read that fails.\<close>

definition apiErrorDescription :: "error \<Rightarrow> error + any option" where
  "apiErrorDescription err =
     (case response err of
        None \<Rightarrow> Inr None
      | Some r \<Rightarrow>
          (case get_prop (data r) ''Error'' of
             Inl e \<Rightarrow> Inl e
           | Inr errs \<Rightarrow>
               if truthy errs then
                 (case index0 errs of
                    Inl e \<Rightarrow> Inl e
                  | Inr responseError \<Rightarrow>
                      (case get_prop responseError ''error_description'' of
                         Inl e \<Rightarrow> Inl e
                       | Inr description \<Rightarrow> Inr (Some description)))
               else Inr None))"

text \<open>The branch on \<^verbatim>\<open>userInfoParsed.isOAuth === false\<close>: the session timeout as the
  principal gives it (in seconds).\<close>

definition readSessionTimeout :: "session_response \<Rightarrow> parsed_user \<Rightarrow> client \<Rightarrow> (error + any) \<times> client" where
  "readSessionTimeout r userInfoParsed c =
     (if isOAuth userInfoParsed = False then
        (case get_prop (info userInfoParsed) ''session_timeout'' of
           Inl e \<Rightarrow> (Inl e, c)
         | Inr session_timeout \<Rightarrow>
             (let c1 = emit (Logger_debug ''Received userInfoParsed.info.session_timeout from api: '') c
              in (Inr session_timeout,
                  c1\<lparr>Session := (Session c1)\<lparr>isOAuthKey := False, userInfo := user_info r\<rparr>\<rparr>)))
      else parseOauthUser userInfoParsed c)"

text \<open>The statements of \<^verbatim>\<open>generateSession\<close> that compute the expiry and fill in the
  session: \<open>createdDate\<close> is \<^verbatim>\<open>new Date(response.token.created + " UTC")\<close>, \<open>seconds\<close> the
  timeout read from the principal, \<open>expiry\<close> the time value of \<open>createdDate\<close> after
  \<^verbatim>\<open>createdDate.setTime(createdDate.getTime() + sessionTimeout)\<close>.\<close>

definition setSessionInformation :: "runtime \<Rightarrow> session_response \<Rightarrow> any \<Rightarrow> session \<Rightarrow> session" where
  "setSessionInformation rt r seconds s =
     (let createdDate = new_Date rt (token_created r @ '' UTC'');
          milliseconds = double_mul (ToNumber rt seconds) (Some 1000);
          expiry = TimeClip (double_add createdDate milliseconds)
      in s\<lparr>sessionExpiryTime := Some expiry,
           sessionTimeout := milliseconds,
           sessionId := resp_id r,
           sessionToken := token_token r,
           sessionTokenId := token_id r\<rparr>)"

text \<open>The rest of \<^verbatim>\<open>generateSession\<close>, from the outcome of the request on. \<open>now\<close> is the
  clock when the timer is set.\<close>

definition generateSession_resume ::
  "runtime \<Rightarrow> int \<Rightarrow> error + session_response \<Rightarrow> error + unit \<Rightarrow> client \<Rightarrow> (error + bool) \<times> client" where
  "generateSession_resume rt now add_outcome store_outcome c =
     (case add_outcome of
        Inl err \<Rightarrow>
          (case apiErrorDescription err of
             Inl e \<Rightarrow> (Inl e, c)
           | Inr None \<Rightarrow> (Inl (SessionError ''INSTALLATION_HAS_SESSION'' err), c)
           | Inr (Some description) \<Rightarrow>
               (Inl (SessionError ''INSTALLATION_HAS_SESSION'' err),
                emit (Logger_error_text ''bunq API error: '' description) c))
      | Inr r \<Rightarrow>
          (let c1 = emit (Logger_debug ''response.token.created:'') c
           in case getUserType (user_info r) of
                Inl e \<Rightarrow> (Inl e, c1)
              | Inr userInfoParsed \<Rightarrow>
                  (case readSessionTimeout r userInfoParsed c1 of
                     (Inl e, c2) \<Rightarrow> (Inl e, c2)
                   | (Inr seconds, c2) \<Rightarrow>
                       (let c3 = emit (Logger_debug ''calculated expireDate: '')
                                   (c2\<lparr>Session := setSessionInformation rt r seconds (Session c2)\<rparr>)
                        in case storeSession store_outcome c3 of
                             (Inl e, c4) \<Rightarrow> (Inl e, c4)
                           | (Inr u, c4) \<Rightarrow> (Inr True, snd (setExpiryTimer rt now False c4))))))"

definition generateSession ::
  "runtime \<Rightarrow> int \<Rightarrow> error + session_response \<Rightarrow> error + unit \<Rightarrow> client \<Rightarrow> (error + bool) \<times> client" where
  "generateSession rt now add_outcome store_outcome c =
     generateSession_resume rt now add_outcome store_outcome (generateSession_call c)"

text \<open>
  \<^verbatim>\<open>registerSession\<close> up to its \<^verbatim>\<open>await\<close>: with a session that is not valid it calls
  \<^verbatim>\<open>generateSession\<close>, which sends the request, and stores the promise in
  \<^verbatim>\<open>fetchingNewSession\<close>. The result is the promise it then waits for, or \<open>None\<close> when it
  has returned \<^verbatim>\<open>true\<close> at once.
\<close>

definition registerSession_call :: "session_methods \<Rightarrow> client \<Rightarrow> nat option \<times> client" where
  "registerSession_call sm c =
     (if verifySessionInstallation sm (Session c) = False then
        (let c1 = generateSession_call c;
             p = nextPromise c1
         in (Some p, c1\<lparr>fetchingNewSession := Some p, nextPromise := Suc p\<rparr>))
      else (None, c))"

text \<open>\<^verbatim>\<open>registerSession\<close> after its \<^verbatim>\<open>await\<close>, with the outcome of the promise.\<close>

definition registerSession_resume :: "error + bool \<Rightarrow> client \<Rightarrow> (error + bool) \<times> client" where
  "registerSession_resume outcome c =
     (case outcome of
        Inl exception \<Rightarrow> (Inl exception, c\<lparr>fetchingNewSession := None\<rparr>)
      | Inr b \<Rightarrow> (Inr True, c\<lparr>fetchingNewSession := None\<rparr>))"

text \<open>A call of \<^verbatim>\<open>registerSession\<close> that nothing else interleaves with.\<close>

definition registerSession ::
  "session_methods \<Rightarrow> runtime \<Rightarrow> int \<Rightarrow> error + session_response \<Rightarrow> error + unit \<Rightarrow> client \<Rightarrow>
   (error + bool) \<times> client" where
  "registerSession sm rt now add_outcome store_outcome c =
     (case registerSession_call sm c of
        (None, c1) \<Rightarrow> (Inr True, c1)
      | (Some p, c1) \<Rightarrow>
          (case generateSession_resume rt now add_outcome store_outcome c1 of
             (outcome, c2) \<Rightarrow> registerSession_resume outcome c2))"

text \<open>The number of session-creation requests sent so far.\<close>

definition session_requests :: "client \<Rightarrow> nat" where
  "session_requests c = length (filter (\<lambda>ev. ev = Api_sessionServer_add) (trace c))"

section \<open>Users\<close>

text \<open>The statements that \<^verbatim>\<open>getUser\<close> and \<^verbatim>\<open>getUsers\<close> run on the list of users.\<close>

definition updateUserInfo :: "any \<Rightarrow> client \<Rightarrow> (error + unit) \<times> client" where
  "updateUserInfo userList c =
     (case getUserType userList of
        Inl e \<Rightarrow> (Inl e, c)
      | Inr userInfoParsed \<Rightarrow>
          if isOAuth userInfoParsed then
            (case parseOauthUser userInfoParsed c of
               (Inl e, c1) \<Rightarrow> (Inl e, c1)
             | (Inr t, c1) \<Rightarrow> (Inr (), c1))
          else
            (case set_prop (userInfo (Session c)) (type userInfoParsed) (info userInfoParsed) of
               Inl e \<Rightarrow> (Inl e, c)
             | Inr ui \<Rightarrow> (Inr (), c\<lparr>Session := (Session c)\<lparr>userInfo := ui\<rparr>\<rparr>)))"

definition getUsers_call :: "bool \<Rightarrow> client \<Rightarrow> client" where
  "getUsers_call updated c = (if updated then emit Api_user_list c else c)"

definition getUsers_resume :: "bool \<Rightarrow> error + any \<Rightarrow> client \<Rightarrow> (error + any) \<times> client" where
  "getUsers_resume updated list_outcome c =
     (if updated then
        (case list_outcome of
           Inl e \<Rightarrow> (Inl e, c)
         | Inr userList \<Rightarrow>
             (case updateUserInfo userList c of
                (Inl e, c1) \<Rightarrow> (Inl e, c1)
              | (Inr u, c1) \<Rightarrow> (Inr (userInfo (Session c1)), c1)))
      else (Inr (userInfo (Session c)), c))"

definition getUsers :: "bool \<Rightarrow> error + any \<Rightarrow> client \<Rightarrow> (error + any) \<times> client" where
  "getUsers updated list_outcome c = getUsers_resume updated list_outcome (getUsers_call updated c)"

definition getUser :: "string \<Rightarrow> bool \<Rightarrow> error + any \<Rightarrow> client \<Rightarrow> (error + any) \<times> client" where
  "getUser userType updated list_outcome c =
     (case getUsers_resume updated list_outcome (getUsers_call updated c) of
        (Inl e, c1) \<Rightarrow> (Inl e, c1)
      | (Inr users, c1) \<Rightarrow>
          (case get_prop (userInfo (Session c1)) userType of
             Inl e \<Rightarrow> (Inl e, c1)
           | Inr user \<Rightarrow> (Inr user, c1)))"

section \<open>The timer's callback\<close>

text \<open>
  \<^verbatim>\<open>expiryTimerCallback\<close> calls \<^verbatim>\<open>getUsers(true)\<close> without waiting for it: the request for
  the list of users is sent, then the timer is set again. \<open>expiryTimerCallback_settled\<close> is
  what runs when the request settles: the rest of \<^verbatim>\<open>getUsers\<close>, then the \<^verbatim>\<open>then\<close> or the
  \<^verbatim>\<open>catch\<close> handler. Nothing receives its result.
\<close>

definition expiryTimerCallback :: "runtime \<Rightarrow> int \<Rightarrow> client \<Rightarrow> bool option \<times> client" where
  "expiryTimerCallback rt now c =
     (if keepAlive c = False then (Some False, clearExpiryTimer c)
      else (None, snd (setExpiryTimer rt now True (getUsers_call True c))))"

definition expiryTimerCallback_settled :: "error + any \<Rightarrow> client \<Rightarrow> client" where
  "expiryTimerCallback_settled list_outcome c =
     (case getUsers_resume True list_outcome c of
        (Inl err, c1) \<Rightarrow> emit (Logger_error err) c1
      | (Inr users, c1) \<Rightarrow> emit (Logger_debug ''Triggered session refresh'') c1)"

section \<open>Start, credentials and destruction\<close>

text \<open>\<^verbatim>\<open>Session.setup\<close>, \<^verbatim>\<open>Session.destroySession\<close> and \<^verbatim>\<open>Session.destroyApiSession\<close>
  are not among the sources: the outcome of each is an argument, an error or the session
  as the method leaves it. The arguments \<^verbatim>\<open>environment\<close> and \<^verbatim>\<open>encryptionKey\<close> of \<^verbatim>\<open>run\<close>
  go to \<^verbatim>\<open>Session.setup\<close> and nowhere else.\<close>

definition run ::
  "runtime \<Rightarrow> int \<Rightarrow> string \<Rightarrow> string list \<Rightarrow> error + session \<Rightarrow> error + unit \<Rightarrow> client \<Rightarrow>
   (error + unit) \<times> client" where
  "run rt now key ips setup_outcome adapter_outcome c =
     (let c1 = (emit (Logger_debug ''bunqJSClient run'') c)\<lparr>apiKey := Some key, allowedIps := ips\<rparr>;
          c2 = emit Session_setup c1
      in case setup_outcome of
           Inl e \<Rightarrow> (Inl e, c2)
         | Inr s \<Rightarrow>
             (let c3 = snd (setExpiryTimer rt now False (c2\<lparr>Session := s\<rparr>));
                  c4 = emit ApiAdapter_setup c3
              in case adapter_outcome of
                   Inl e \<Rightarrow> (Inl e, c4)
                 | Inr u \<Rightarrow> (Inr (), c4)))"

text \<open>\<^verbatim>\<open>response.Response[0].UserCredentialPasswordIpRequest\<close>\<close>

definition credentialRequest :: "any \<Rightarrow> error + any" where
  "credentialRequest r =
     (case get_prop r ''Response'' of
        Inl e \<Rightarrow> Inl e
      | Inr rs \<Rightarrow>
          (case index0 rs of
             Inl e \<Rightarrow> Inl e
           | Inr first \<Rightarrow> get_prop first ''UserCredentialPasswordIpRequest''))"

definition createCredentials :: "error + any \<Rightarrow> client \<Rightarrow> (error + any) \<times> client" where
  "createCredentials post_outcome c =
     (let c1 = emit (ApiAdapter_post ''https://api.tinker.bunq.com/v1/credential-password-ip-request'') c
      in case post_outcome of
           Inl e \<Rightarrow> (Inl e, c1)
         | Inr r \<Rightarrow> (credentialRequest r, c1))"

definition checkCredentialStatus :: "string \<Rightarrow> error + any \<Rightarrow> client \<Rightarrow> (error + any) \<times> client" where
  "checkCredentialStatus uuid get_outcome c =
     (let c1 = emit (ApiAdapter_get (''https://api.tinker.bunq.com/v1/credential-password-ip-request/'' @ uuid)) c
      in case get_outcome of
           Inl e \<Rightarrow> (Inl e, c1)
         | Inr r \<Rightarrow> (credentialRequest r, c1))"

text \<open>In \<^verbatim>\<open>destroySession\<close> the \<^verbatim>\<open>catch\<close> around \<^verbatim>\<open>api.sessionServer.delete()\<close> is
  empty: whatever the outcome of the request, the function goes on.\<close>

definition destroySession ::
  "session_methods \<Rightarrow> error + unit \<Rightarrow> error + session \<Rightarrow> client \<Rightarrow> (error + unit) \<times> client" where
  "destroySession sm delete_outcome destroy_outcome c =
     (let c1 = (if verifyInstallation sm (Session c) \<and> verifyDeviceInstallation sm (Session c) \<and>
                   verifySessionInstallation sm (Session c)
                then (case delete_outcome of
                        Inl ex \<Rightarrow> emit Api_sessionServer_delete c
                      | Inr u \<Rightarrow> emit Api_sessionServer_delete c)
                else c);
          c2 = emit Session_destroySession (clearExpiryTimer c1)
      in case destroy_outcome of
           Inl e \<Rightarrow> (Inl e, c2)
         | Inr s \<Rightarrow> (Inr (), c2\<lparr>Session := s\<rparr>))"

definition destroyApiSession :: "error + session \<Rightarrow> client \<Rightarrow> (error + unit) \<times> client" where
  "destroyApiSession destroy_outcome c =
     (let c1 = emit (Session_destroyApiSession True) (clearExpiryTimer c)
      in case destroy_outcome of
           Inl e \<Rightarrow> (Inl e, c1)
         | Inr s \<Rightarrow> (Inr (), c1\<lparr>Session := s\<rparr>))"

section \<open>Notions the properties are stated with\<close>

text \<open>The four fields that \<^verbatim>\<open>getUserType\<close> looks for, in the order it tests them, and
  the error it throws when it finds none.\<close>

definition principal_fields :: "string list" where
  "principal_fields = [''UserCompany'', ''UserPerson'', ''UserLight'', ''UserApiKey'']"

definition unsupported :: error where
  "unsupported = Error ''No supported account type found! (Not one of UserLight, UserPerson, UserApiKey or UserCompany)''"

text \<open>The property \<open>k\<close> of a payload that is neither \<^verbatim>\<open>null\<close> nor \<^verbatim>\<open>undefined\<close>: the entry
  of an object; a primitive and an array have none of the names read here.\<close>

definition field_of :: "json \<Rightarrow> string \<Rightarrow> any" where
  "field_of v k = (case v of JObj kvs \<Rightarrow> map_of kvs k | _ \<Rightarrow> None)"

text \<open>Where \<^verbatim>\<open>generateSession\<close> reads the session timeout of a classified principal: in
  the principal's own info, or for an OAuth key in the info of its classified
  \<^verbatim>\<open>requested_by_user\<close>.\<close>

definition principalSessionTimeout :: "parsed_user \<Rightarrow> error + any" where
  "principalSessionTimeout userInfoParsed =
     (if isOAuth userInfoParsed = False then get_prop (info userInfoParsed) ''session_timeout''
      else (case get_prop (info userInfoParsed) ''requested_by_user'' of
              Inl e \<Rightarrow> Inl e
            | Inr requested_by_user \<Rightarrow>
                (case getUserType requested_by_user of
                   Inl e \<Rightarrow> Inl e
                 | Inr requestedByUserParsed \<Rightarrow> get_prop (info requestedByUserParsed) ''session_timeout'')))"

text \<open>The error that leaves the \<^verbatim>\<open>catch\<close> of \<^verbatim>\<open>registerDevice\<close> for a caught error \<open>err\<close>:
  \<open>err\<close> itself, unless the status is 400 and the key generation or the storage of the
  recovery fails in turn.\<close>

definition rethrown :: "error \<Rightarrow> error + key \<times> key \<Rightarrow> error + unit \<Rightarrow> error" where
  "rethrown err keypair_outcome store_catch =
     (case response err of
        None \<Rightarrow> err
      | Some r \<Rightarrow>
          if status r = 400 then
            (case keypair_outcome of
               Inl e1 \<Rightarrow> e1
             | Inr keys \<Rightarrow> (case store_catch of Inl e2 \<Rightarrow> e2 | Inr u \<Rightarrow> err))
          else err)"

section \<open>Sample values\<close>

text \<open>A session with nothing in it: every field \<^verbatim>\<open>null\<close>, no user (the empty object), a
  timeout of 0. A client as the constructor leaves it, around such a session.\<close>

definition empty_session :: session where
  "empty_session =
     \<lparr>publicKey = None, privateKey = None, serverPublicKeyPem = None, serverPublicKey = None,
      installToken = None, installUpdated = None, installCreated = None, deviceId = None,
      isOAuthKey = False, userInfo = Some (JObj []), sessionExpiryTime = None,
      sessionTimeout = Some 0, sessionId = None, sessionToken = None, sessionTokenId = None,
      sessionExpiryTimeChecker = None\<rparr>"

definition new_client :: client where
  "new_client =
     \<lparr>Session = empty_session, apiKey = None, allowedIps = [], keepAlive = True,
      fetchingNewSession = None, nextPromise = 0, timers = [], nextTimer = 0, trace = []\<rparr>"

text \<open>Session methods that look at the fields an installation, a device registration and a
  session fill in.\<close>

definition by_presence :: session_methods where
  "by_presence =
     \<lparr>verifyInstallation = (\<lambda>s. serverPublicKey s \<noteq> None \<and> installToken s \<noteq> None),
      verifyDeviceInstallation = (\<lambda>s. deviceId s \<noteq> None),
      verifySessionInstallation = (\<lambda>s. sessionId s \<noteq> None)\<rparr>"

text \<open>A runtime outside of the CI environment, and one inside it. In both, every
  date string parses to the time value 1000.\<close>

definition plain_runtime :: runtime where
  "plain_runtime = \<lparr>process_env = Some (\<lambda>k. None), Date_parse = (\<lambda>s. Some 1000), ToNumber_other = (\<lambda>v. None)\<rparr>"

definition ci_runtime :: runtime where
  "ci_runtime =
     \<lparr>process_env = Some (\<lambda>k. if k = ''ENV_CI'' then Some ''true'' else None),
      Date_parse = (\<lambda>s. Some 1000), ToNumber_other = (\<lambda>v. None)\<rparr>"

text \<open>Responses of the session-creation endpoint: for a person, for an OAuth key whose
  granted-by user has no identifier, and with a principal of no known type. A client whose
  timer is armed.\<close>

definition person_response :: session_response where
  "person_response =
     \<lparr>resp_id = Some (JNum 7), token_id = Some (JNum 8), token_token = Some (JStr ''token''),
      token_created = ''2020-01-01 10:00:00'',
      user_info = Some (JObj [(''UserPerson'', JObj [(''id'', JNum 42), (''session_timeout'', JNum 600)])])\<rparr>"

definition oauth_response :: session_response where
  "oauth_response =
     \<lparr>resp_id = Some (JNum 7), token_id = Some (JNum 8), token_token = Some (JStr ''token''),
      token_created = ''2020-01-01 10:00:00'',
      user_info = Some (JObj [(''UserApiKey'', JObj
        [(''id'', JNum 9),
         (''requested_by_user'', JObj [(''UserPerson'', JObj [(''id'', JNum 42), (''session_timeout'', JNum 600)])]),
         (''granted_by_user'', JObj [(''UserCompany'', JObj [(''name'', JStr ''shop'')])])])])\<rparr>"

text \<open>Two responses for a person with a very long session timeout: 8640000000000 seconds,
  and \<open>2 ^ 53 - 1\<close> seconds.\<close>

definition long_timeout_response :: session_response where
  "long_timeout_response =
     person_response\<lparr>user_info :=
       Some (JObj [(''UserPerson'', JObj [(''id'', JNum 42), (''session_timeout'', JNum 8640000000000)])])\<rparr>"

definition longest_timeout_response :: session_response where
  "longest_timeout_response =
     person_response\<lparr>user_info :=
       Some (JObj [(''UserPerson'', JObj [(''id'', JNum 42), (''session_timeout'', JNum 9007199254740991)])])\<rparr>"

definition armed_client :: client where
  "armed_client =
     new_client\<lparr>Session := empty_session\<lparr>sessionExpiryTime := Some (Some 601000),
                                          sessionTimeout := Some 600000,
                                          sessionExpiryTimeChecker := Some 0\<rparr>,
                timers := [(0, Some 581000)], nextTimer := 1\<rparr>"

definition unknown_principal :: session_response where
  "unknown_principal = \<lparr>resp_id = Some (JNum 7), token_id = Some (JNum 8), token_token = Some (JStr ''t''),
     token_created = ''2020-01-01 10:00:00'', user_info = Some (JObj [(''UserUnknown'', JObj [])])\<rparr>"

text \<open>The principal of \<open>oauth_response\<close>, classified. Three failures of a request: one
  without a response, one with the status 400 and a body that describes the error, one with
  the status 409.\<close>

definition oauth_principal :: parsed_user where
  "oauth_principal =
     \<lparr>info = Some (JObj
        [(''id'', JNum 9),
         (''requested_by_user'', JObj [(''UserPerson'', JObj [(''id'', JNum 42), (''session_timeout'', JNum 600)])]),
         (''granted_by_user'', JObj [(''UserCompany'', JObj [(''name'', JStr ''shop'')])])]),
      type = ''UserApiKey'', isOAuth = True\<rparr>"

definition network_failure :: error where
  "network_failure = Failure ''network'' None"

definition bad_request :: error where
  "bad_request = Failure ''Request failed with status code 400''
     (Some \<lparr>status = 400,
            data = Some (JObj [(''Error'', JArr [JObj [(''error_description'', JStr ''duplicate key'')]])])\<rparr>)"

definition conflict :: error where
  "conflict = Failure ''Request failed with status code 409''
     (Some \<lparr>status = 409,
            data = Some (JObj [(''Error'', JArr [JObj [(''error_description'', JStr ''conflict'')]])])\<rparr>)"

text \<open>Clients at three stages: with a key pair only, with an installation, with a device
  and a session as well.\<close>

definition keyed_client :: client where
  "keyed_client = new_client\<lparr>Session := empty_session\<lparr>publicKey := Some 1, privateKey := Some 2\<rparr>\<rparr>"

definition installed_client :: client where
  "installed_client =
     new_client\<lparr>Session := empty_session\<lparr>publicKey := Some 1, privateKey := Some 2,
        serverPublicKeyPem := Some ''pem'', serverPublicKey := Some 3, installToken := Some ''install'',
        installUpdated := Some (Some 1000), installCreated := Some (Some 1000)\<rparr>\<rparr>"

definition registered_client :: client where
  "registered_client =
     installed_client\<lparr>Session := (Session installed_client)\<lparr>deviceId := Some (JNum 5), sessionId := Some (JNum 7)\<rparr>\<rparr>"

text \<open>Two calls of \<^verbatim>\<open>registerSession\<close> that overlap: the second is made while the first
  waits for its promise. Then the first request fails and the first call resumes, and the
  second request succeeds and the second call resumes.\<close>

definition first_call :: client where
  "first_call = snd (registerSession_call by_presence new_client)"

definition second_call :: client where
  "second_call = snd (registerSession_call by_presence first_call)"

definition first_settled :: "(error + bool) \<times> client" where
  "first_settled = generateSession_resume plain_runtime 5000 (Inl network_failure) (Inr ()) second_call"

definition first_resumed :: "(error + bool) \<times> client" where
  "first_resumed = registerSession_resume (fst first_settled) (snd first_settled)"

definition second_settled :: "(error + bool) \<times> client" where
  "second_settled = generateSession_resume plain_runtime 5000 (Inr person_response) (Inr ()) (snd first_resumed)"

definition second_resumed :: "(error + bool) \<times> client" where
  "second_resumed = registerSession_resume (fst second_settled) (snd second_settled)"

section \<open>Exact doubles\<close>

lemma quantum_small: "m < 9007199254740992 \<Longrightarrow> quantum m = 1"
  by (simp add: quantum.simps)

lemma quantum_next: "\<not> m < 9007199254740992 \<Longrightarrow> m < 18014398509481984 \<Longrightarrow> quantum m = 2"
  by (subst quantum.simps) (simp add: quantum_small)

text \<open>Below \<open>2 ^ 53\<close> every integer is a double; below \<open>2 ^ 54\<close> every even one is.\<close>

lemma to_double_even:
  assumes "\<bar>x\<bar> < 18014398509481984" and "even x"
  shows "to_double x = Some x"
proof (cases "nat \<bar>x\<bar> < 9007199254740992")
  case True
  then have q: "quantum (nat \<bar>x\<bar>) = 1" by (rule quantum_small)
  have "\<bar>x\<bar> < 2 ^ 1024" using assms(1) by (rule less_trans) simp
  then show ?thesis by (simp add: to_double_def q)
next
  case False
  moreover have "nat \<bar>x\<bar> < 18014398509481984" using assms(1) by simp
  ultimately have q: "quantum (nat \<bar>x\<bar>) = 2" by (rule quantum_next)
  have "\<bar>x\<bar> < 2 ^ 1024" using assms(1) by (rule less_trans) simp
  moreover have "x div 2 * 2 = x" using assms(2) by simp
  ultimately show ?thesis by (simp add: to_double_def q)
qed

lemma to_double_small:
  assumes "\<bar>x\<bar> < 9007199254740992"
  shows "to_double x = Some x"
proof -
  from assms have q: "quantum (nat \<bar>x\<bar>) = 1" by (intro quantum_small) simp
  have "\<bar>x\<bar> < 2 ^ 1024" using assms by (rule less_trans) simp
  then show ?thesis by (simp add: to_double_def q)
qed

section \<open>Frame lemmas\<close>

lemma Session_emit [simp]: "Session (emit ev c) = Session c"
  and timers_emit [simp]: "timers (emit ev c) = timers c"
  and nextTimer_emit [simp]: "nextTimer (emit ev c) = nextTimer c"
  and fetching_emit [simp]: "fetchingNewSession (emit ev c) = fetchingNewSession c"
  and keepAlive_emit [simp]: "keepAlive (emit ev c) = keepAlive c"
  and nextPromise_emit [simp]: "nextPromise (emit ev c) = nextPromise c"
  and allowedIps_emit [simp]: "allowedIps (emit ev c) = allowedIps c"
  and trace_emit [simp]: "trace (emit ev c) = trace c @ [ev]"
  by (simp_all add: emit_def)

lemma clearExpiryTimer_frame [simp]:
  "Session (clearExpiryTimer c) = Session c"
  "nextTimer (clearExpiryTimer c) = nextTimer c"
  "keepAlive (clearExpiryTimer c) = keepAlive c"
  "trace (clearExpiryTimer c) = trace c"
  "fetchingNewSession (clearExpiryTimer c) = fetchingNewSession c"
  by (simp_all add: clearExpiryTimer_def split: option.splits)

lemma clearExpiryTimer_timers:
  "timers (clearExpiryTimer c) =
     (case sessionExpiryTimeChecker (Session c) of
        None \<Rightarrow> timers c
      | Some h \<Rightarrow> filter (\<lambda>t. fst t \<noteq> h) (timers c))"
  by (simp add: clearExpiryTimer_def split: option.splits)

lemma clearExpiryTimer_cong:
  "sessionExpiryTimeChecker (Session c1) = sessionExpiryTimeChecker (Session c) \<Longrightarrow> timers c1 = timers c \<Longrightarrow>
   timers (clearExpiryTimer c1) = timers (clearExpiryTimer c)"
  by (simp add: clearExpiryTimer_timers split: option.splits)

lemma setExpiryTimer_enabled:
  assumes "\<not> in_CI rt" and "keepAlive c" and "sessionExpiryTime (Session c) = Some expiry"
  shows "setExpiryTimer rt now short c =
     (None, (clearExpiryTimer c)
        \<lparr>timers := timers (clearExpiryTimer c) @
           [(nextTimer c,
             num_sub (if short
                      then (if num_gt (sessionTimeout (Session c)) (Some FIVE_MINUTES_MS)
                            then Some FIVE_MINUTES_MS else sessionTimeout (Session c))
                      else num_sub expiry (Some now)) (Some 15000))],
         nextTimer := Suc (nextTimer c),
         Session := (Session c)\<lparr>sessionExpiryTimeChecker := Some (nextTimer c)\<rparr>\<rparr>)"
  using assms by (simp add: setExpiryTimer_def Let_def)

text \<open>\<^verbatim>\<open>setExpiryTimer\<close> writes the timers and the handle, nothing else.\<close>

lemma setExpiryTimer_frame [simp]:
  "sessionExpiryTime (Session (snd (setExpiryTimer rt now short c))) = sessionExpiryTime (Session c)"
  "sessionTimeout (Session (snd (setExpiryTimer rt now short c))) = sessionTimeout (Session c)"
  "isOAuthKey (Session (snd (setExpiryTimer rt now short c))) = isOAuthKey (Session c)"
  "userInfo (Session (snd (setExpiryTimer rt now short c))) = userInfo (Session c)"
  "sessionId (Session (snd (setExpiryTimer rt now short c))) = sessionId (Session c)"
  "fetchingNewSession (snd (setExpiryTimer rt now short c)) = fetchingNewSession c"
  "keepAlive (snd (setExpiryTimer rt now short c)) = keepAlive c"
  "trace (snd (setExpiryTimer rt now short c)) = trace c"
  by (simp_all add: setExpiryTimer_def Let_def split: option.splits)

text \<open>\<^verbatim>\<open>parseOauthUser\<close> writes the user info and a log line, nothing else.\<close>

lemma parseOauthUser_frame [simp]:
  "timers (snd (parseOauthUser u c)) = timers c"
  "nextTimer (snd (parseOauthUser u c)) = nextTimer c"
  "keepAlive (snd (parseOauthUser u c)) = keepAlive c"
  "fetchingNewSession (snd (parseOauthUser u c)) = fetchingNewSession c"
  "isOAuthKey (Session (snd (parseOauthUser u c))) = isOAuthKey (Session c)"
  "sessionExpiryTimeChecker (Session (snd (parseOauthUser u c))) = sessionExpiryTimeChecker (Session c)"
  "sessionExpiryTime (Session (snd (parseOauthUser u c))) = sessionExpiryTime (Session c)"
  "sessionTimeout (Session (snd (parseOauthUser u c))) = sessionTimeout (Session c)"
  "sessionId (Session (snd (parseOauthUser u c))) = sessionId (Session c)"
  by (simp_all add: parseOauthUser_def Let_def split: sum.splits)

lemma parseOauthUser_timeout:
  assumes "parseOauthUser u c = (Inr t, c')" and "isOAuth u"
  shows "principalSessionTimeout u = Inr t"
  using assms
  by (auto simp: parseOauthUser_def principalSessionTimeout_def Let_def split: sum.splits)

lemma readSessionTimeout_frame [simp]:
  "timers (snd (readSessionTimeout r u c)) = timers c"
  "nextTimer (snd (readSessionTimeout r u c)) = nextTimer c"
  "keepAlive (snd (readSessionTimeout r u c)) = keepAlive c"
  "fetchingNewSession (snd (readSessionTimeout r u c)) = fetchingNewSession c"
  "sessionExpiryTimeChecker (Session (snd (readSessionTimeout r u c))) = sessionExpiryTimeChecker (Session c)"
  by (simp_all add: readSessionTimeout_def Let_def split: sum.splits)

lemma readSessionTimeout_value:
  assumes "readSessionTimeout r u c = (Inr t, c')"
  shows "principalSessionTimeout u = Inr t"
proof (cases "isOAuth u")
  case True
  with assms have "parseOauthUser u c = (Inr t, c')" by (simp add: readSessionTimeout_def)
  then show ?thesis using True by (rule parseOauthUser_timeout)
next
  case False
  with assms show ?thesis
    by (simp add: readSessionTimeout_def principalSessionTimeout_def Let_def split: sum.splits)
qed

text \<open>What a successful \<^verbatim>\<open>generateSession\<close> went through.\<close>

lemma generateSession_resume_success:
  assumes "generateSession_resume rt now (Inr r) store_outcome c = (Inr b, c')"
  obtains u seconds c2 where
    "getUserType (user_info r) = Inr u"
    "readSessionTimeout r u (emit (Logger_debug ''response.token.created:'') c) = (Inr seconds, c2)"
    "store_outcome = Inr ()"
    "c' = snd (setExpiryTimer rt now False
            (emit (Session_storeSession (setSessionInformation rt r seconds (Session c2)))
               (emit (Logger_debug ''calculated expireDate: '')
                  (c2\<lparr>Session := setSessionInformation rt r seconds (Session c2)\<rparr>))))"
proof -
  from assms obtain u where u: "getUserType (user_info r) = Inr u"
    by (cases "getUserType (user_info r)") (simp_all add: generateSession_resume_def Let_def)
  obtain res c2 where rs: "readSessionTimeout r u (emit (Logger_debug ''response.token.created:'') c) = (res, c2)"
    by (cases "readSessionTimeout r u (emit (Logger_debug ''response.token.created:'') c)")
  from assms u rs obtain seconds where s: "res = Inr seconds"
    by (cases res) (simp_all add: generateSession_resume_def Let_def)
  from assms u rs s have st: "store_outcome = Inr ()"
    by (cases store_outcome) (simp_all add: generateSession_resume_def Let_def storeSession_def)
  from assms u rs s st have
    "c' = snd (setExpiryTimer rt now False
            (emit (Session_storeSession (setSessionInformation rt r seconds (Session c2)))
               (emit (Logger_debug ''calculated expireDate: '')
                  (c2\<lparr>Session := setSessionInformation rt r seconds (Session c2)\<rparr>))))"
    by (simp add: generateSession_resume_def Let_def storeSession_def)
  with u rs s st show thesis using that by simp
qed

lemmas sample_defs = person_response_def oauth_response_def armed_client_def new_client_def
  empty_session_def plain_runtime_def ci_runtime_def by_presence_def

lemmas run_defs = generateSession_def generateSession_call_def generateSession_resume_def
  readSessionTimeout_def parseOauthUser_def getUserType_def setSessionInformation_def
  storeSession_def setExpiryTimer_def clearExpiryTimer_def in_CI_def emit_def ToNumber_def
  num_add_def num_sub_def num_mul_def num_gt_def FIVE_MINUTES_MS_def Let_def
  new_Date_def TimeClip_def double_add_def double_mul_def to_double_def quantum.simps

section \<open>Principal classification (C7)\<close>

lemma get_prop_field_of:
  assumes "v \<noteq> JNull"
  shows "get_prop (Some v) k = Inr (field_of v k)"
  using assms by (cases v) (simp_all add: field_of_def)

lemma getUserType_first_field:
  assumes "v \<noteq> JNull"
  shows "getUserType (Some v) =
     (case find (\<lambda>k. field_of v k \<noteq> None) principal_fields of
        None \<Rightarrow> Inl unsupported
      | Some k \<Rightarrow> Inr \<lparr>info = field_of v k, type = k, isOAuth = (k = ''UserApiKey'')\<rparr>)"
  by (auto simp: getUserType_def get_prop_field_of [OF assms] principal_fields_def unsupported_def
        split: option.splits)

lemma generateSession_unsupported:
  assumes "getUserType (user_info r) = Inl e"
  shows "generateSession rt now (Inr r) store_outcome c =
           (Inl e, emit (Logger_debug ''response.token.created:'') (generateSession_call c))"
  using assms by (simp add: generateSession_def generateSession_resume_def Let_def)

lemma updateUserInfo_unsupported:
  assumes "getUserType userList = Inl e"
  shows "updateUserInfo userList c = (Inl e, c)"
  using assms by (simp add: updateUserInfo_def)

text \<open>
  C7, as stated, fails twice. A payload that is \<^verbatim>\<open>undefined\<close> or \<^verbatim>\<open>null\<close> has none of the
  four fields, and the read of the first of them raises a TypeError, not the error of an
  unsupported type. And that error, which the empty object gets, is \<^verbatim>\<open>new Error(message)\<close>:
  it has a message and no name or code of its own, unlike the object with an
  \<^verbatim>\<open>errorCode\<close> that \<^verbatim>\<open>generateSession\<close> throws.
\<close>

theorem getUserType_null_payload:
  "getUserType None = Inl TypeError
   \<and> getUserType (Some JNull) = Inl TypeError
   \<and> getUserType (Some (JObj [])) =
       Inl (Error ''No supported account type found! (Not one of UserLight, UserPerson, UserApiKey or UserCompany)'')
   \<and> TypeError \<noteq> unsupported"
  by (simp add: getUserType_def unsupported_def)

text \<open>
  C7, amended. On a payload that is neither \<^verbatim>\<open>undefined\<close> nor \<^verbatim>\<open>null\<close>, \<^verbatim>\<open>getUserType\<close>
  classifies by the first of the fields \<^verbatim>\<open>UserCompany\<close>, \<^verbatim>\<open>UserPerson\<close>, \<^verbatim>\<open>UserLight\<close>,
  \<^verbatim>\<open>UserApiKey\<close> that is present: the result carries that field's value, its name as type
  tag, and is OAuth for \<^verbatim>\<open>UserApiKey\<close> only. With none of the four it throws
  \<^verbatim>\<open>new Error("No supported account type found! ...")\<close>, an error with a message and no
  error code. On \<^verbatim>\<open>undefined\<close> and \<^verbatim>\<open>null\<close> it raises a TypeError. Whenever it throws,
  nothing is committed: \<^verbatim>\<open>generateSession\<close> leaves the session and the timers as they were
  (it has logged and sent its request), and the update of \<^verbatim>\<open>getUser\<close> and \<^verbatim>\<open>getUsers\<close>
  leaves the client as it was.
\<close>

theorem getUserType_classifies:
  "getUserType None = Inl TypeError
   \<and> getUserType (Some JNull) = Inl TypeError
   \<and> (v \<noteq> JNull \<longrightarrow>
        getUserType (Some v) =
          (case find (\<lambda>k. field_of v k \<noteq> None) principal_fields of
             None \<Rightarrow> Inl unsupported
           | Some k \<Rightarrow> Inr \<lparr>info = field_of v k, type = k, isOAuth = (k = ''UserApiKey'')\<rparr>))
   \<and> unsupported =
        Error ''No supported account type found! (Not one of UserLight, UserPerson, UserApiKey or UserCompany)''
   \<and> (getUserType (user_info r) = Inl e \<longrightarrow>
        fst (generateSession rt now (Inr r) store_outcome c) = Inl e
      \<and> Session (snd (generateSession rt now (Inr r) store_outcome c)) = Session c
      \<and> timers (snd (generateSession rt now (Inr r) store_outcome c)) = timers c
      \<and> trace (snd (generateSession rt now (Inr r) store_outcome c)) =
          trace c @ [Logger_debug '' === Attempting to fetch session'', Api_sessionServer_add,
                     Logger_debug ''response.token.created:'']
      \<and> updateUserInfo (user_info r) c = (Inl e, c))"
proof (intro conjI impI)
  show "getUserType None = Inl TypeError" and "getUserType (Some JNull) = Inl TypeError"
    by (simp_all add: getUserType_def)
  show "unsupported =
        Error ''No supported account type found! (Not one of UserLight, UserPerson, UserApiKey or UserCompany)''"
    by (simp add: unsupported_def)
next
  assume "v \<noteq> JNull"
  then show "getUserType (Some v) =
          (case find (\<lambda>k. field_of v k \<noteq> None) principal_fields of
             None \<Rightarrow> Inl unsupported
           | Some k \<Rightarrow> Inr \<lparr>info = field_of v k, type = k, isOAuth = (k = ''UserApiKey'')\<rparr>)"
    by (rule getUserType_first_field)
next
  assume g: "getUserType (user_info r) = Inl e"
  note gs = generateSession_unsupported [OF g]
  show "fst (generateSession rt now (Inr r) store_outcome c) = Inl e"
    by (simp add: gs)
  show "Session (snd (generateSession rt now (Inr r) store_outcome c)) = Session c"
    by (simp add: gs generateSession_call_def)
  show "timers (snd (generateSession rt now (Inr r) store_outcome c)) = timers c"
    by (simp add: gs generateSession_call_def)
  show "trace (snd (generateSession rt now (Inr r) store_outcome c)) =
          trace c @ [Logger_debug '' === Attempting to fetch session'', Api_sessionServer_add,
                     Logger_debug ''response.token.created:'']"
    by (simp add: gs generateSession_call_def)
  show "updateUserInfo (user_info r) c = (Inl e, c)"
    using g by (rule updateUserInfo_unsupported)
qed

theorem getUserType_classifies_witness:
  "getUserType (Some (JObj [(''UserUnknown'', JObj [])])) = Inl unsupported
   \<and> getUserType (Some (JNum 5)) = Inl unsupported
   \<and> getUserType (Some (JObj [(''UserLight'', JObj []), (''UserCompany'', JNull)])) =
       Inr \<lparr>info = Some JNull, type = ''UserCompany'', isOAuth = False\<rparr>
   \<and> getUserType (Some (JObj [(''UserApiKey'', JObj [])])) =
       Inr \<lparr>info = Some (JObj []), type = ''UserApiKey'', isOAuth = True\<rparr>
   \<and> fst (generateSession plain_runtime 0 (Inr unknown_principal) (Inr ()) new_client) = Inl unsupported
   \<and> Session (snd (generateSession plain_runtime 0 (Inr unknown_principal) (Inr ()) new_client)) = empty_session
   \<and> timers (snd (generateSession plain_runtime 0 (Inr unknown_principal) (Inr ()) new_client)) = []
   \<and> trace (snd (generateSession plain_runtime 0 (Inr unknown_principal) (Inr ()) new_client)) =
       [Logger_debug '' === Attempting to fetch session'', Api_sessionServer_add,
        Logger_debug ''response.token.created:'']
   \<and> updateUserInfo (Some (JObj [(''UserUnknown'', JObj [])])) new_client = (Inl unsupported, new_client)"
proof -
  have u: "user_info unknown_principal = Some (JObj [(''UserUnknown'', JObj [])])"
    by (simp add: unknown_principal_def)
  note none = getUserType_classifies [of "JObj [(''UserUnknown'', JObj [])]" unknown_principal unsupported
      plain_runtime 0 "Inr ()" new_client]
  note number = getUserType_classifies [of "JNum 5" unknown_principal unsupported
      plain_runtime 0 "Inr ()" new_client]
  note company = getUserType_classifies [of "JObj [(''UserLight'', JObj []), (''UserCompany'', JNull)]"
      unknown_principal unsupported plain_runtime 0 "Inr ()" new_client]
  note oauth = getUserType_classifies [of "JObj [(''UserApiKey'', JObj [])]" unknown_principal unsupported
      plain_runtime 0 "Inr ()" new_client]
  from none have 1: "getUserType (Some (JObj [(''UserUnknown'', JObj [])])) = Inl unsupported"
    by (simp add: principal_fields_def field_of_def)
  from number have 2: "getUserType (Some (JNum 5)) = Inl unsupported"
    by (simp add: principal_fields_def field_of_def)
  from company have 3: "getUserType (Some (JObj [(''UserLight'', JObj []), (''UserCompany'', JNull)])) =
       Inr \<lparr>info = Some JNull, type = ''UserCompany'', isOAuth = False\<rparr>"
    by (simp add: principal_fields_def field_of_def)
  from oauth have 4: "getUserType (Some (JObj [(''UserApiKey'', JObj [])])) =
       Inr \<lparr>info = Some (JObj []), type = ''UserApiKey'', isOAuth = True\<rparr>"
    by (simp add: principal_fields_def field_of_def)
  from 1 u have g: "getUserType (user_info unknown_principal) = Inl unsupported" by simp
  from none g u 1 2 3 4 show ?thesis
    by (simp add: new_client_def)
qed

section \<open>Expiry arithmetic (C4)\<close>

text \<open>
  C4, as stated, fails for timeouts that take the expiry out of the range of a \<^verbatim>\<open>Date\<close> or
  the product out of the integers a double holds. Created at the time value 1000 with a
  timeout of 8640000000000 seconds, the session gets an invalid date as expiry, not
  \<open>T0 + S * 1000\<close>; with a timeout of \<open>2 ^ 53 - 1\<close> seconds it gets the timeout
  9007199254740990976 milliseconds, not \<open>S * 1000\<close>.
\<close>

theorem generateSession_expiry_out_of_range:
  "fst (generateSession plain_runtime 5000 (Inr long_timeout_response) (Inr ()) new_client) = Inr True
   \<and> new_Date plain_runtime (token_created long_timeout_response @ '' UTC'') = Some 1000
   \<and> sessionTimeout (Session (snd (generateSession plain_runtime 5000 (Inr long_timeout_response) (Inr ()) new_client)))
       = Some 8640000000000000
   \<and> sessionExpiryTime (Session (snd (generateSession plain_runtime 5000 (Inr long_timeout_response) (Inr ()) new_client)))
       = Some None
   \<and> sessionExpiryTime (Session (snd (generateSession plain_runtime 5000 (Inr long_timeout_response) (Inr ()) new_client)))
       \<noteq> Some (Some (1000 + 8640000000000 * 1000))
   \<and> fst (generateSession plain_runtime 5000 (Inr longest_timeout_response) (Inr ()) new_client) = Inr True
   \<and> sessionTimeout (Session (snd (generateSession plain_runtime 5000 (Inr longest_timeout_response) (Inr ()) new_client)))
       = Some 9007199254740990976
   \<and> sessionTimeout (Session (snd (generateSession plain_runtime 5000 (Inr longest_timeout_response) (Inr ()) new_client)))
       \<noteq> Some (9007199254740991 * 1000)"
  by (simp add: run_defs sample_defs long_timeout_response_def longest_timeout_response_def)

text \<open>
  C4, amended. After a successful \<^verbatim>\<open>generateSession\<close> on a response created at \<open>T0\<close> whose
  principal gives a session timeout of \<open>S\<close> seconds, with \<open>T0 + S * 1000\<close> in the range of a
  \<^verbatim>\<open>Date\<close> (at most 8.64e15 milliseconds on either side of 1970), the session holds the
  expiry \<open>T0 + S * 1000\<close> and the timeout \<open>S * 1000\<close>, both in milliseconds. Outside of CI and
  with \<open>keepAlive\<close> set, \<^verbatim>\<open>setExpiryTimer()\<close> arms a timer with the delay
  \<open>(expiry - now) - 15000\<close>: a call on the resulting client does, and the call that ended
  \<^verbatim>\<open>generateSession\<close> did, in place of the timer armed before.
\<close>

theorem generateSession_expiry:
  assumes "generateSession rt now (Inr r) store_outcome c = (Inr b, c')"
    and "getUserType (user_info r) = Inr u"
    and "principalSessionTimeout u = Inr (Some (JNum S))"
    and "new_Date rt (token_created r @ '' UTC'') = Some T0"
    and "\<bar>T0 + S * 1000\<bar> \<le> 8640000000000000"
    and "\<not> in_CI rt" and "keepAlive c"
  shows "sessionExpiryTime (Session c') = Some (Some (T0 + S * 1000))
       \<and> sessionTimeout (Session c') = Some (S * 1000)
       \<and> setExpiryTimer rt now False c' =
           (None, (clearExpiryTimer c')
              \<lparr>timers := timers (clearExpiryTimer c') @ [(nextTimer c', Some (((T0 + S * 1000) - now) - 15000))],
               nextTimer := Suc (nextTimer c'),
               Session := (Session c')\<lparr>sessionExpiryTimeChecker := Some (nextTimer c')\<rparr>\<rparr>)
       \<and> timers c' = timers (clearExpiryTimer c) @ [(nextTimer c, Some (((T0 + S * 1000) - now) - 15000))]
       \<and> sessionExpiryTimeChecker (Session c') = Some (nextTimer c)"
proof -
  from assms(1) have "generateSession_resume rt now (Inr r) store_outcome (generateSession_call c) = (Inr b, c')"
    by (simp add: generateSession_def)
  then obtain u' seconds c2 where
    u': "getUserType (user_info r) = Inr u'"
    and rs: "readSessionTimeout r u' (emit (Logger_debug ''response.token.created:'') (generateSession_call c)) = (Inr seconds, c2)"
    and c': "c' = snd (setExpiryTimer rt now False
            (emit (Session_storeSession (setSessionInformation rt r seconds (Session c2)))
               (emit (Logger_debug ''calculated expireDate: '')
                  (c2\<lparr>Session := setSessionInformation rt r seconds (Session c2)\<rparr>))))"
    by (rule generateSession_resume_success)
  from u' assms(2) have "u' = u" by simp
  with rs assms(3) have seconds: "seconds = Some (JNum S)"
    using readSessionTimeout_value by fastforce
  from assms(4) have T0: "\<bar>T0\<bar> \<le> 8640000000000000"
    by (simp add: new_Date_def TimeClip_def split: option.splits if_splits)
  from T0 assms(5) have "\<bar>S\<bar> < 9007199254740992" by arith
  then have S: "to_double S = Some S" by (rule to_double_small)
  from T0 assms(5) have "\<bar>S * 1000\<bar> < 18014398509481984" by arith
  then have product: "to_double (S * 1000) = Some (S * 1000)"
    by (rule to_double_even) simp
  from assms(5) have "\<bar>T0 + S * 1000\<bar> < 9007199254740992" by arith
  then have total: "to_double (T0 + S * 1000) = Some (T0 + S * 1000)"
    by (rule to_double_small)
  let ?s = "setSessionInformation rt r seconds (Session c2)"
  let ?c4 = "emit (Session_storeSession ?s) (emit (Logger_debug ''calculated expireDate: '') (c2\<lparr>Session := ?s\<rparr>))"
  have e: "sessionExpiryTime ?s = Some (Some (T0 + S * 1000))"
    and t: "sessionTimeout ?s = Some (S * 1000)"
    using assms(4) assms(5) seconds
    by (simp_all add: setSessionInformation_def ToNumber_def double_mul_def double_add_def TimeClip_def
          S product total Let_def)
  have c2: "c2 = snd (readSessionTimeout r u' (emit (Logger_debug ''response.token.created:'') (generateSession_call c)))"
    using rs by simp
  have k2: "keepAlive c2" and t2: "timers c2 = timers c" and n2: "nextTimer c2 = nextTimer c"
    and h2: "sessionExpiryTimeChecker (Session c2) = sessionExpiryTimeChecker (Session c)"
    using assms(7) by (simp_all add: c2 generateSession_call_def)
  have k4: "keepAlive ?c4" using k2 by simp
  have e4: "sessionExpiryTime (Session ?c4) = Some (Some (T0 + S * 1000))" using e by simp
  have h4: "sessionExpiryTimeChecker (Session ?c4) = sessionExpiryTimeChecker (Session c)"
    using h2 by (simp add: setSessionInformation_def Let_def)
  have cl: "timers (clearExpiryTimer ?c4) = timers (clearExpiryTimer c)"
    using h4 t2 by (intro clearExpiryTimer_cong) simp_all
  note arm = setExpiryTimer_enabled [OF assms(6) k4 e4, of now False]
  have 1: "sessionExpiryTime (Session c') = Some (Some (T0 + S * 1000))"
    unfolding c' using e by simp
  have 2: "sessionTimeout (Session c') = Some (S * 1000)"
    unfolding c' using t by simp
  have k': "keepAlive c'" unfolding c' using k2 by simp
  have 3: "setExpiryTimer rt now False c' =
           (None, (clearExpiryTimer c')
              \<lparr>timers := timers (clearExpiryTimer c') @ [(nextTimer c', Some (((T0 + S * 1000) - now) - 15000))],
               nextTimer := Suc (nextTimer c'),
               Session := (Session c')\<lparr>sessionExpiryTimeChecker := Some (nextTimer c')\<rparr>\<rparr>)"
    unfolding setExpiryTimer_enabled [OF assms(6) k' 1] by (simp add: num_sub_def)
  have 4: "timers c' = timers (clearExpiryTimer c) @ [(nextTimer c, Some (((T0 + S * 1000) - now) - 15000))]"
    unfolding c' arm by (simp add: cl n2 num_sub_def)
  have 5: "sessionExpiryTimeChecker (Session c') = Some (nextTimer c)"
    unfolding c' arm by (simp add: n2)
  from 1 2 3 4 5 show ?thesis by simp
qed

theorem generateSession_expiry_witness:
  "generateSession plain_runtime 5000 (Inr person_response) (Inr ()) new_client =
     (Inr True, snd (generateSession plain_runtime 5000 (Inr person_response) (Inr ()) new_client))
   \<and> sessionExpiryTime (Session (snd (generateSession plain_runtime 5000 (Inr person_response) (Inr ()) new_client)))
       = Some (Some 601000)
   \<and> sessionTimeout (Session (snd (generateSession plain_runtime 5000 (Inr person_response) (Inr ()) new_client)))
       = Some 600000
   \<and> timers (snd (generateSession plain_runtime 5000 (Inr person_response) (Inr ()) new_client)) = [(0, Some 581000)]"
proof -
  let ?c' = "snd (generateSession plain_runtime 5000 (Inr person_response) (Inr ()) new_client)"
  have f: "fst (generateSession plain_runtime 5000 (Inr person_response) (Inr ()) new_client) = Inr True"
    by (simp add: run_defs sample_defs)
  then have a1: "generateSession plain_runtime 5000 (Inr person_response) (Inr ()) new_client = (Inr True, ?c')"
    by (simp add: prod_eq_iff)
  have a2: "getUserType (user_info person_response) =
      Inr \<lparr>info = Some (JObj [(''id'', JNum 42), (''session_timeout'', JNum 600)]), type = ''UserPerson'', isOAuth = False\<rparr>"
    by (simp add: getUserType_def person_response_def)
  have a3: "principalSessionTimeout
      \<lparr>info = Some (JObj [(''id'', JNum 42), (''session_timeout'', JNum 600)]), type = ''UserPerson'', isOAuth = False\<rparr>
      = Inr (Some (JNum 600))"
    by (simp add: principalSessionTimeout_def)
  have a4: "new_Date plain_runtime (token_created person_response @ '' UTC'') = Some 1000"
    by (simp add: new_Date_def TimeClip_def plain_runtime_def)
  have a5: "\<bar>1000 + 600 * 1000\<bar> \<le> (8640000000000000 :: int)" by simp
  have a6: "\<not> in_CI plain_runtime" by (simp add: in_CI_def plain_runtime_def)
  have a7: "keepAlive new_client" by (simp add: new_client_def)
  have cl: "timers (clearExpiryTimer new_client) = []" and n: "nextTimer new_client = 0"
    by (simp_all add: clearExpiryTimer_def new_client_def empty_session_def)
  from generateSession_expiry [OF a1 a2 a3 a4 a5 a6 a7] a1 show ?thesis
    by (simp add: cl n)
qed

section \<open>The short timeout (C5)\<close>

text \<open>
  C5. Outside of CI, with \<open>keepAlive\<close> set, a known expiry and a session timeout of \<open>ms\<close>
  milliseconds, \<^verbatim>\<open>setExpiryTimer(true)\<close> arms, in place of the timer armed before, a timer
  with the delay \<open>min ms 300000 - 15000\<close>. The delay is not the remaining time: the timers
  are the same for every clock \<open>now'\<close> and every expiry \<open>expiry'\<close>.
\<close>

theorem setExpiryTimer_short_cap:
  assumes "\<not> in_CI rt" and "keepAlive c"
    and "sessionExpiryTime (Session c) = Some expiry"
    and "sessionTimeout (Session c) = Some ms"
  shows "timers (snd (setExpiryTimer rt now True c)) =
           timers (clearExpiryTimer c) @ [(nextTimer c, Some (min ms 300000 - 15000))]
       \<and> sessionExpiryTimeChecker (Session (snd (setExpiryTimer rt now True c))) = Some (nextTimer c)
       \<and> timers (snd (setExpiryTimer rt now' True (c\<lparr>Session := (Session c)\<lparr>sessionExpiryTime := Some expiry'\<rparr>\<rparr>))) =
           timers (snd (setExpiryTimer rt now True c))"
proof -
  let ?c' = "c\<lparr>Session := (Session c)\<lparr>sessionExpiryTime := Some expiry'\<rparr>\<rparr>"
  have k: "keepAlive ?c'" using assms(2) by simp
  have e: "sessionExpiryTime (Session ?c') = Some expiry'" by simp
  have cl: "timers (clearExpiryTimer ?c') = timers (clearExpiryTimer c)"
    by (rule clearExpiryTimer_cong) simp_all
  show ?thesis
    unfolding setExpiryTimer_enabled [OF assms(1) assms(2) assms(3)]
      setExpiryTimer_enabled [OF assms(1) k e]
    using assms(4) by (simp add: num_sub_def num_gt_def FIVE_MINUTES_MS_def min_def cl)
qed

theorem setExpiryTimer_short_cap_witness:
  "timers armed_client = [(0, Some 581000)]
   \<and> timers (snd (setExpiryTimer plain_runtime 5000 True armed_client)) = [(1, Some 285000)]
   \<and> sessionExpiryTimeChecker (Session (snd (setExpiryTimer plain_runtime 5000 True armed_client))) = Some 1
   \<and> timers (snd (setExpiryTimer plain_runtime 99000 True
         (armed_client\<lparr>Session := (Session armed_client)\<lparr>sessionExpiryTime := Some (Some 7)\<rparr>\<rparr>))) = [(1, Some 285000)]"
proof -
  have a1: "\<not> in_CI plain_runtime" by (simp add: in_CI_def plain_runtime_def)
  have a2: "keepAlive armed_client" by (simp add: armed_client_def new_client_def)
  have a3: "sessionExpiryTime (Session armed_client) = Some (Some 601000)"
    by (simp add: armed_client_def)
  have a4: "sessionTimeout (Session armed_client) = Some 600000"
    by (simp add: armed_client_def)
  have cl: "timers (clearExpiryTimer armed_client) = []" and n: "nextTimer armed_client = 1"
    and t: "timers armed_client = [(0, Some 581000)]"
    by (simp_all add: clearExpiryTimer_def armed_client_def)
  from setExpiryTimer_short_cap [OF a1 a2 a3 a4, of 5000 99000 "Some 7"] show ?thesis
    by (simp add: cl n t)
qed

section \<open>Disabled renewal (C6)\<close>

text \<open>
  C6, as stated, fails in the CI environment: \<^verbatim>\<open>setExpiryTimer\<close> returns at once there
  and the timer armed before stays armed, with \<open>keepAlive\<close> set or not.
\<close>

theorem setExpiryTimer_CI_keeps_timer:
  "in_CI ci_runtime
   \<and> sessionExpiryTimeChecker (Session armed_client) = Some 0
   \<and> timers armed_client = [(0, Some 581000)]
   \<and> setExpiryTimer ci_runtime 5000 False armed_client = (Some False, armed_client)
   \<and> timers (snd (setExpiryTimer ci_runtime 5000 False armed_client)) = [(0, Some 581000)]
   \<and> timers (snd (setExpiryTimer ci_runtime 5000 False (armed_client\<lparr>keepAlive := False\<rparr>))) = [(0, Some 581000)]"
  by (simp add: setExpiryTimer_def in_CI_def ci_runtime_def armed_client_def)

text \<open>
  C6, amended. In the CI environment \<^verbatim>\<open>setExpiryTimer\<close> returns \<^verbatim>\<open>false\<close> and changes
  nothing: no timer is scheduled, and none is cancelled. Outside of it and with \<open>keepAlive\<close>
  false, it returns \<^verbatim>\<open>false\<close> after \<^verbatim>\<open>clearExpiryTimer\<close>: no timer is scheduled, and the
  timer of the handle the session holds is cancelled.
\<close>

theorem setExpiryTimer_disabled:
  "(in_CI rt \<longrightarrow> setExpiryTimer rt now short c = (Some False, c))
   \<and> (\<not> in_CI rt \<and> keepAlive c = False \<longrightarrow>
        setExpiryTimer rt now short c = (Some False, clearExpiryTimer c)
      \<and> set (timers (clearExpiryTimer c)) \<subseteq> set (timers c)
      \<and> nextTimer (clearExpiryTimer c) = nextTimer c
      \<and> Session (clearExpiryTimer c) = Session c
      \<and> (case sessionExpiryTimeChecker (Session c) of
            None \<Rightarrow> True
          | Some h \<Rightarrow> h \<notin> fst ` set (timers (clearExpiryTimer c))))"
  by (auto simp: setExpiryTimer_def clearExpiryTimer_def split: option.splits)

theorem setExpiryTimer_disabled_witness:
  "setExpiryTimer ci_runtime 5000 False armed_client = (Some False, armed_client)
   \<and> setExpiryTimer plain_runtime 5000 False (armed_client\<lparr>keepAlive := False\<rparr>) =
       (Some False, armed_client\<lparr>keepAlive := False, timers := []\<rparr>)"
proof -
  have a: "in_CI ci_runtime" by (simp add: in_CI_def ci_runtime_def)
  have b: "\<not> in_CI plain_runtime \<and> keepAlive (armed_client\<lparr>keepAlive := False\<rparr>) = False"
    by (simp add: in_CI_def plain_runtime_def)
  have cl: "clearExpiryTimer (armed_client\<lparr>keepAlive := False\<rparr>) = armed_client\<lparr>keepAlive := False, timers := []\<rparr>"
    by (simp add: clearExpiryTimer_def armed_client_def)
  from setExpiryTimer_disabled [of ci_runtime 5000 False armed_client] a
    setExpiryTimer_disabled [of plain_runtime 5000 False "armed_client\<lparr>keepAlive := False\<rparr>"] b
  show ?thesis by (simp add: cl)
qed

section \<open>The OAuth flag (C10)\<close>

lemma generateSession_OAuth_flag_any:
  assumes "getUserType (user_info r) = Inr u" and "isOAuth u"
  shows "isOAuthKey (Session (snd (generateSession rt now (Inr r) store_outcome c))) = isOAuthKey (Session c)"
proof -
  let ?c1 = "emit (Logger_debug ''response.token.created:'') (generateSession_call c)"
  have rs: "readSessionTimeout r u ?c1 = parseOauthUser u ?c1"
    using assms(2) by (simp add: readSessionTimeout_def)
  have p: "isOAuthKey (Session (snd (parseOauthUser u ?c1))) = isOAuthKey (Session c)"
    by (simp add: generateSession_call_def)
  show ?thesis
    using assms(1) p
    by (cases "parseOauthUser u ?c1")
       (simp add: generateSession_def generateSession_resume_def rs Let_def storeSession_def
          setSessionInformation_def split: sum.splits)
qed

text \<open>
  C10. After a successful \<^verbatim>\<open>generateSession\<close> the flag \<open>isOAuthKey\<close> has the value it had
  before when the principal is an OAuth key, and is \<^verbatim>\<open>false\<close> otherwise: the branch of the
  other principals assigns it, the OAuth branch does not.
\<close>

theorem generateSession_OAuth_flag:
  assumes "generateSession rt now (Inr r) store_outcome c = (Inr b, c')"
    and "getUserType (user_info r) = Inr u"
  shows "isOAuthKey (Session c') = (if isOAuth u then isOAuthKey (Session c) else False)"
proof (cases "isOAuth u")
  case True
  from generateSession_OAuth_flag_any [OF assms(2) True, of rt now store_outcome c] assms(1) True
  show ?thesis by simp
next
  case False
  from assms(1) have "generateSession_resume rt now (Inr r) store_outcome (generateSession_call c) = (Inr b, c')"
    by (simp add: generateSession_def)
  then obtain u' seconds c2 where
    u': "getUserType (user_info r) = Inr u'"
    and rs: "readSessionTimeout r u' (emit (Logger_debug ''response.token.created:'') (generateSession_call c)) = (Inr seconds, c2)"
    and c': "c' = snd (setExpiryTimer rt now False
            (emit (Session_storeSession (setSessionInformation rt r seconds (Session c2)))
               (emit (Logger_debug ''calculated expireDate: '')
                  (c2\<lparr>Session := setSessionInformation rt r seconds (Session c2)\<rparr>))))"
    by (rule generateSession_resume_success)
  from u' assms(2) have "u' = u" by simp
  with rs False have "isOAuthKey (Session c2) = False"
    by (auto simp: readSessionTimeout_def Let_def split: sum.splits)
  then show ?thesis
    unfolding c' using False by (simp add: setSessionInformation_def Let_def)
qed

theorem generateSession_OAuth_flag_witness:
  "fst (generateSession plain_runtime 5000 (Inr oauth_response) (Inr ())
          (new_client\<lparr>Session := empty_session\<lparr>isOAuthKey := True\<rparr>\<rparr>)) = Inr True
   \<and> isOAuthKey (Session (snd (generateSession plain_runtime 5000 (Inr oauth_response) (Inr ())
          (new_client\<lparr>Session := empty_session\<lparr>isOAuthKey := True\<rparr>\<rparr>)))) = True
   \<and> fst (generateSession plain_runtime 5000 (Inr oauth_response) (Inr ()) new_client) = Inr True
   \<and> isOAuthKey (Session (snd (generateSession plain_runtime 5000 (Inr oauth_response) (Inr ()) new_client))) = False
   \<and> fst (generateSession plain_runtime 5000 (Inr person_response) (Inr ())
          (new_client\<lparr>Session := empty_session\<lparr>isOAuthKey := True\<rparr>\<rparr>)) = Inr True
   \<and> isOAuthKey (Session (snd (generateSession plain_runtime 5000 (Inr person_response) (Inr ())
          (new_client\<lparr>Session := empty_session\<lparr>isOAuthKey := True\<rparr>\<rparr>)))) = False"
proof -
  let ?t = "new_client\<lparr>Session := empty_session\<lparr>isOAuthKey := True\<rparr>\<rparr>"
  have f1: "fst (generateSession plain_runtime 5000 (Inr oauth_response) (Inr ()) ?t) = Inr True"
    by (simp add: run_defs sample_defs)
  have f2: "fst (generateSession plain_runtime 5000 (Inr oauth_response) (Inr ()) new_client) = Inr True"
    by (simp add: run_defs sample_defs)
  have f3: "fst (generateSession plain_runtime 5000 (Inr person_response) (Inr ()) ?t) = Inr True"
    by (simp add: run_defs sample_defs)
  have u1: "getUserType (user_info oauth_response) =
      Inr \<lparr>info = Some (JObj
        [(''id'', JNum 9),
         (''requested_by_user'', JObj [(''UserPerson'', JObj [(''id'', JNum 42), (''session_timeout'', JNum 600)])]),
         (''granted_by_user'', JObj [(''UserCompany'', JObj [(''name'', JStr ''shop'')])])]),
        type = ''UserApiKey'', isOAuth = True\<rparr>"
    by (simp add: getUserType_def oauth_response_def)
  have u3: "getUserType (user_info person_response) =
      Inr \<lparr>info = Some (JObj [(''id'', JNum 42), (''session_timeout'', JNum 600)]), type = ''UserPerson'', isOAuth = False\<rparr>"
    by (simp add: getUserType_def person_response_def)
  have e1: "generateSession plain_runtime 5000 (Inr oauth_response) (Inr ()) ?t =
     (Inr True, snd (generateSession plain_runtime 5000 (Inr oauth_response) (Inr ()) ?t))"
    using f1 by (simp add: prod_eq_iff)
  have e2: "generateSession plain_runtime 5000 (Inr oauth_response) (Inr ()) new_client =
     (Inr True, snd (generateSession plain_runtime 5000 (Inr oauth_response) (Inr ()) new_client))"
    using f2 by (simp add: prod_eq_iff)
  have e3: "generateSession plain_runtime 5000 (Inr person_response) (Inr ()) ?t =
     (Inr True, snd (generateSession plain_runtime 5000 (Inr person_response) (Inr ()) ?t))"
    using f3 by (simp add: prod_eq_iff)
  from generateSession_OAuth_flag [OF e1 u1] generateSession_OAuth_flag [OF e2 u1]
    generateSession_OAuth_flag [OF e3 u3] f1 f2 f3
  show ?thesis by (simp add: new_client_def empty_session_def)
qed

section \<open>OAuth principals (C8)\<close>

text \<open>
  C8. For an OAuth principal whose nested principals classify, \<^verbatim>\<open>parseOauthUser\<close> returns
  the \<^verbatim>\<open>session_timeout\<close> of the classified requested-by principal and stores the info of
  the granted-by principal under \<^verbatim>\<open>UserApiKey\<close> of the session's user info, leaving the other
  entries. The stored info has the granted-by principal's own \<^verbatim>\<open>id\<close> when that is truthy,
  and the outer principal's \<^verbatim>\<open>id\<close> when it is missing (or \<^verbatim>\<open>null\<close>, 0, empty: the test
  is \<^verbatim>\<open>!info.id\<close>); its other properties are the granted-by principal's.
\<close>

theorem parseOauthUser_granted_by:
  assumes "info userInfoParsed = Some (JObj outer)"
    and "getUserType (map_of outer ''requested_by_user'') = Inr requested"
    and "get_prop (info requested) ''session_timeout'' = Inr seconds"
    and "getUserType (map_of outer ''granted_by_user'') = Inr granted"
    and "info granted = Some (JObj g)"
    and "userInfo (Session c) = Some (JObj users)"
  shows "\<exists>g' users'.
           parseOauthUser userInfoParsed c =
             (Inr seconds,
              (emit (Logger_debug ''Received requestedByUserParsed.info.session_timeout from api: '') c)
                \<lparr>Session := (Session c)\<lparr>userInfo := Some (JObj users')\<rparr>\<rparr>)
         \<and> map_of users' ''UserApiKey'' = Some (JObj g')
         \<and> (\<forall>k. k \<noteq> ''UserApiKey'' \<longrightarrow> map_of users' k = map_of users k)
         \<and> map_of g' ''id'' = (if truthy (map_of g ''id'') then map_of g ''id'' else map_of outer ''id'')
         \<and> (\<forall>k. k \<noteq> ''id'' \<longrightarrow> map_of g' k = map_of g k)"
proof -
  define g' where "g' = (if truthy (map_of g ''id'') then g
                         else (case map_of outer ''id'' of
                                 None \<Rightarrow> AList.delete ''id'' g
                               | Some v \<Rightarrow> AList.update ''id'' v g))"
  have res: "parseOauthUser userInfoParsed c =
             (Inr seconds,
              (emit (Logger_debug ''Received requestedByUserParsed.info.session_timeout from api: '') c)
                \<lparr>Session := (Session c)\<lparr>userInfo := Some (JObj (AList.update ''UserApiKey'' (JObj g') users))\<rparr>\<rparr>)"
  proof (cases "truthy (map_of g ''id'')")
    case True
    then have "g' = g" by (simp add: g'_def)
    with True assms show ?thesis by (simp add: parseOauthUser_def Let_def)
  next
    case False
    then have "set_prop (Some (JObj g)) ''id'' (map_of outer ''id'') = Inr (Some (JObj g'))"
      by (cases "map_of outer ''id''") (simp_all add: g'_def)
    with False assms show ?thesis by (simp add: parseOauthUser_def Let_def)
  qed
  have gid: "map_of g' ''id'' = (if truthy (map_of g ''id'') then map_of g ''id'' else map_of outer ''id'')"
    by (cases "map_of outer ''id''") (simp_all add: g'_def update_conv' delete_conv')
  have rest: "\<forall>k. k \<noteq> ''id'' \<longrightarrow> map_of g' k = map_of g k"
    by (cases "map_of outer ''id''") (simp_all add: g'_def update_conv' delete_conv')
  have slot: "map_of (AList.update ''UserApiKey'' (JObj g') users) ''UserApiKey'' = Some (JObj g')"
    by (simp add: update_conv')
  have others: "\<forall>k. k \<noteq> ''UserApiKey'' \<longrightarrow> map_of (AList.update ''UserApiKey'' (JObj g') users) k = map_of users k"
    by (simp add: update_conv')
  from res slot others gid rest show ?thesis by blast
qed

theorem parseOauthUser_granted_by_witness:
  "\<exists>g'. fst (parseOauthUser oauth_principal new_client) = Inr (Some (JNum 600))
      \<and> get_prop (userInfo (Session (snd (parseOauthUser oauth_principal new_client)))) ''UserApiKey'' = Inr (Some (JObj g'))
      \<and> map_of g' ''id'' = Some (JNum 9)
      \<and> map_of g' ''name'' = Some (JStr ''shop'')"
proof -
  have a1: "info oauth_principal = Some (JObj
        [(''id'', JNum 9),
         (''requested_by_user'', JObj [(''UserPerson'', JObj [(''id'', JNum 42), (''session_timeout'', JNum 600)])]),
         (''granted_by_user'', JObj [(''UserCompany'', JObj [(''name'', JStr ''shop'')])])])"
    by (simp add: oauth_principal_def)
  have a2: "getUserType (map_of
        [(''id'', JNum 9),
         (''requested_by_user'', JObj [(''UserPerson'', JObj [(''id'', JNum 42), (''session_timeout'', JNum 600)])]),
         (''granted_by_user'', JObj [(''UserCompany'', JObj [(''name'', JStr ''shop'')])])] ''requested_by_user'')
       = Inr \<lparr>info = Some (JObj [(''id'', JNum 42), (''session_timeout'', JNum 600)]), type = ''UserPerson'', isOAuth = False\<rparr>"
    by (simp add: getUserType_def)
  have a3: "get_prop (info \<lparr>info = Some (JObj [(''id'', JNum 42), (''session_timeout'', JNum 600)]), type = ''UserPerson'', isOAuth = False\<rparr>)
       ''session_timeout'' = Inr (Some (JNum 600))"
    by simp
  have a4: "getUserType (map_of
        [(''id'', JNum 9),
         (''requested_by_user'', JObj [(''UserPerson'', JObj [(''id'', JNum 42), (''session_timeout'', JNum 600)])]),
         (''granted_by_user'', JObj [(''UserCompany'', JObj [(''name'', JStr ''shop'')])])] ''granted_by_user'')
       = Inr \<lparr>info = Some (JObj [(''name'', JStr ''shop'')]), type = ''UserCompany'', isOAuth = False\<rparr>"
    by (simp add: getUserType_def)
  have a5: "info \<lparr>info = Some (JObj [(''name'', JStr ''shop'')]), type = ''UserCompany'', isOAuth = False\<rparr>
       = Some (JObj [(''name'', JStr ''shop'')])"
    by simp
  have a6: "userInfo (Session new_client) = Some (JObj [])"
    by (simp add: new_client_def empty_session_def)
  from parseOauthUser_granted_by [OF a1 a2 a3 a4 a5 a6]
  obtain g' users' where
    r: "parseOauthUser oauth_principal new_client =
             (Inr (Some (JNum 600)),
              (emit (Logger_debug ''Received requestedByUserParsed.info.session_timeout from api: '') new_client)
                \<lparr>Session := (Session new_client)\<lparr>userInfo := Some (JObj users')\<rparr>\<rparr>)"
    and s: "map_of users' ''UserApiKey'' = Some (JObj g')"
    and i: "map_of g' ''id'' = (if truthy (map_of [(''name'', JStr ''shop'')] ''id'') then map_of [(''name'', JStr ''shop'')] ''id''
          else map_of [(''id'', JNum 9),
         (''requested_by_user'', JObj [(''UserPerson'', JObj [(''id'', JNum 42), (''session_timeout'', JNum 600)])]),
         (''granted_by_user'', JObj [(''UserCompany'', JObj [(''name'', JStr ''shop'')])])] ''id'')"
    and k: "\<forall>k. k \<noteq> ''id'' \<longrightarrow> map_of g' k = map_of [(''name'', JStr ''shop'')] k"
    by blast
  from k have n: "map_of g' ''name'' = Some (JStr ''shop'')" by simp
  from i have i': "map_of g' ''id'' = Some (JNum 9)" by simp
  from r s i' n show ?thesis by simp
qed

section \<open>Rejected device registration (C2)\<close>

text \<open>
  C2, as stated, fails for the client errors other than 400: \<^verbatim>\<open>registerDevice\<close> tests
  \<^verbatim>\<open>response.status === 400\<close>. A rejection with the status 409 is rethrown with the
  installation as it was and nothing stored.
\<close>

theorem registerDevice_conflict_keeps_installation:
  "response conflict =
     Some \<lparr>status = 409, data = Some (JObj [(''Error'', JArr [JObj [(''error_description'', JStr ''conflict'')]])])\<rparr>
   \<and> registerDevice by_presence ''My Device'' (Inl conflict) (Inr ()) (Inr (10, 11)) (Inr ()) installed_client =
       (Inl conflict, installed_client\<lparr>trace := [Api_deviceRegistration_add ''My Device'' []]\<rparr>)
   \<and> serverPublicKey (Session installed_client) = Some 3
   \<and> installToken (Session installed_client) = Some ''install''"
  by (simp add: registerDevice_def conflict_def by_presence_def emit_def installed_client_def
        new_client_def empty_session_def Let_def)

text \<open>
  C2, amended. When the call \<^verbatim>\<open>api.deviceRegistration.add\<close> of \<^verbatim>\<open>registerDevice\<close> fails with
  \<open>err\<close>: without a response, or with a response of a status other than 400, \<open>err\<close> is
  rethrown and the client is as before, but for the trace of the call. With a response of
  status 400 the server public key (PEM and parsed), the install token and the two install
  dates are set to \<^verbatim>\<open>null\<close> and \<^verbatim>\<open>setupKeypair(true)\<close> is called; when it succeeds it has
  replaced the key pair and \<^verbatim>\<open>storeSession\<close> is called on that very session; when that
  succeeds too, \<open>err\<close> is rethrown. When \<^verbatim>\<open>setupKeypair\<close> or \<^verbatim>\<open>storeSession\<close> fails, its
  error is thrown in place of \<open>err\<close>, the installation being wiped all the same.
\<close>

theorem registerDevice_failure:
  assumes "verifyDeviceInstallation sm (Session c) = False"
  shows "(response err = None \<longrightarrow>
            registerDevice sm deviceName (Inl err) store_try keypair_outcome store_catch c =
              (Inl err, emit (Api_deviceRegistration_add deviceName (allowedIps c)) c))
       \<and> (response err = Some r \<and> status r \<noteq> 400 \<longrightarrow>
            registerDevice sm deviceName (Inl err) store_try keypair_outcome store_catch c =
              (Inl err, emit (Api_deviceRegistration_add deviceName (allowedIps c)) c))
       \<and> (response err = Some r \<and> status r = 400 \<and> keypair_outcome = Inr (priv, pub) \<and> store_catch = Inr () \<longrightarrow>
            registerDevice sm deviceName (Inl err) store_try keypair_outcome store_catch c =
              (Inl err,
               c\<lparr>Session := (destroyInstallation (Session c))\<lparr>privateKey := Some priv, publicKey := Some pub\<rparr>,
                 trace := trace c @
                   [Api_deviceRegistration_add deviceName (allowedIps c),
                    Session_setupKeypair True,
                    Session_storeSession ((destroyInstallation (Session c))\<lparr>privateKey := Some priv, publicKey := Some pub\<rparr>)]\<rparr>))
       \<and> (response err = Some r \<and> status r = 400 \<and> keypair_outcome = Inl key_error \<longrightarrow>
            registerDevice sm deviceName (Inl err) store_try keypair_outcome store_catch c =
              (Inl key_error,
               c\<lparr>Session := destroyInstallation (Session c),
                 trace := trace c @
                   [Api_deviceRegistration_add deviceName (allowedIps c), Session_setupKeypair True]\<rparr>))
       \<and> (response err = Some r \<and> status r = 400 \<and> keypair_outcome = Inr (priv, pub) \<and> store_catch = Inl store_error \<longrightarrow>
            registerDevice sm deviceName (Inl err) store_try keypair_outcome store_catch c =
              (Inl store_error,
               c\<lparr>Session := (destroyInstallation (Session c))\<lparr>privateKey := Some priv, publicKey := Some pub\<rparr>,
                 trace := trace c @
                   [Api_deviceRegistration_add deviceName (allowedIps c),
                    Session_setupKeypair True,
                    Session_storeSession ((destroyInstallation (Session c))\<lparr>privateKey := Some priv, publicKey := Some pub\<rparr>)]\<rparr>))
       \<and> serverPublicKeyPem (destroyInstallation (Session c)) = None
       \<and> serverPublicKey (destroyInstallation (Session c)) = None
       \<and> installToken (destroyInstallation (Session c)) = None
       \<and> installCreated (destroyInstallation (Session c)) = None
       \<and> installUpdated (destroyInstallation (Session c)) = None"
  using assms
  by (simp add: registerDevice_def setupKeypair_def storeSession_def destroyInstallation_def emit_def Let_def)

theorem registerDevice_failure_witness:
  "registerDevice by_presence ''My Device'' (Inl network_failure) (Inr ()) (Inr (10, 11)) (Inr ()) installed_client =
     (Inl network_failure, installed_client\<lparr>trace := [Api_deviceRegistration_add ''My Device'' []]\<rparr>)
   \<and> registerDevice by_presence ''My Device'' (Inl conflict) (Inr ()) (Inr (10, 11)) (Inr ()) installed_client =
     (Inl conflict, installed_client\<lparr>trace := [Api_deviceRegistration_add ''My Device'' []]\<rparr>)
   \<and> fst (registerDevice by_presence ''My Device'' (Inl bad_request) (Inr ()) (Inr (10, 11)) (Inr ()) installed_client) =
       Inl bad_request
   \<and> Session (snd (registerDevice by_presence ''My Device'' (Inl bad_request) (Inr ()) (Inr (10, 11)) (Inr ()) installed_client)) =
       empty_session\<lparr>privateKey := Some 10, publicKey := Some 11\<rparr>
   \<and> trace (snd (registerDevice by_presence ''My Device'' (Inl bad_request) (Inr ()) (Inr (10, 11)) (Inr ()) installed_client)) =
       [Api_deviceRegistration_add ''My Device'' [], Session_setupKeypair True,
        Session_storeSession (empty_session\<lparr>privateKey := Some 10, publicKey := Some 11\<rparr>)]
   \<and> registerDevice by_presence ''My Device'' (Inl bad_request) (Inr ()) (Inl network_failure) (Inr ()) installed_client =
       (Inl network_failure,
        installed_client\<lparr>Session := empty_session\<lparr>publicKey := Some 1, privateKey := Some 2\<rparr>,
          trace := [Api_deviceRegistration_add ''My Device'' [], Session_setupKeypair True]\<rparr>)
   \<and> fst (registerDevice by_presence ''My Device'' (Inl bad_request) (Inr ()) (Inr (10, 11)) (Inl network_failure) installed_client) =
       Inl network_failure"
proof -
  have v: "verifyDeviceInstallation by_presence (Session installed_client) = False"
    by (simp add: by_presence_def installed_client_def new_client_def empty_session_def)
  have n: "response network_failure = None" by (simp add: network_failure_def)
  have b: "response bad_request =
      Some \<lparr>status = 400, data = Some (JObj [(''Error'', JArr [JObj [(''error_description'', JStr ''duplicate key'')]])])\<rparr>"
    and b': "status \<lparr>status = 400, data = Some (JObj [(''Error'', JArr [JObj [(''error_description'', JStr ''duplicate key'')]])])\<rparr> = 400"
    by (simp_all add: bad_request_def)
  have k: "response conflict =
      Some \<lparr>status = 409, data = Some (JObj [(''Error'', JArr [JObj [(''error_description'', JStr ''conflict'')]])])\<rparr>"
    and k': "status \<lparr>status = 409, data = Some (JObj [(''Error'', JArr [JObj [(''error_description'', JStr ''conflict'')]])])\<rparr> \<noteq> 400"
    by (simp_all add: conflict_def)
  have d: "destroyInstallation (Session installed_client) = empty_session\<lparr>publicKey := Some 1, privateKey := Some 2\<rparr>"
    by (simp add: destroyInstallation_def installed_client_def new_client_def empty_session_def)
  have t: "trace installed_client = []" and i: "allowedIps installed_client = []"
    by (simp_all add: installed_client_def new_client_def)
  have e: "emit (Api_deviceRegistration_add ''My Device'' []) installed_client =
      installed_client\<lparr>trace := [Api_deviceRegistration_add ''My Device'' []]\<rparr>"
    by (simp add: emit_def t)
  from registerDevice_failure [OF v, where err = network_failure and deviceName = "''My Device''"
      and store_try = "Inr ()" and keypair_outcome = "Inr (10, 11)" and store_catch = "Inr ()"] n
  have 1: "registerDevice by_presence ''My Device'' (Inl network_failure) (Inr ()) (Inr (10, 11)) (Inr ()) installed_client =
     (Inl network_failure, installed_client\<lparr>trace := [Api_deviceRegistration_add ''My Device'' []]\<rparr>)"
    by (simp add: i e)
  from registerDevice_failure [OF v, where err = conflict and deviceName = "''My Device''"
      and store_try = "Inr ()" and keypair_outcome = "Inr (10, 11)" and store_catch = "Inr ()"
      and r = "\<lparr>status = 409, data = Some (JObj [(''Error'', JArr [JObj [(''error_description'', JStr ''conflict'')]])])\<rparr>"]
    k k'
  have 2: "registerDevice by_presence ''My Device'' (Inl conflict) (Inr ()) (Inr (10, 11)) (Inr ()) installed_client =
     (Inl conflict, installed_client\<lparr>trace := [Api_deviceRegistration_add ''My Device'' []]\<rparr>)"
    by (simp add: i e)
  from registerDevice_failure [OF v, where err = bad_request and deviceName = "''My Device''"
      and store_try = "Inr ()" and keypair_outcome = "Inr (10, 11)" and store_catch = "Inr ()"
      and priv = 10 and pub = 11
      and r = "\<lparr>status = 400, data = Some (JObj [(''Error'', JArr [JObj [(''error_description'', JStr ''duplicate key'')]])])\<rparr>"]
    b b'
  have 3: "registerDevice by_presence ''My Device'' (Inl bad_request) (Inr ()) (Inr (10, 11)) (Inr ()) installed_client =
              (Inl bad_request,
               installed_client\<lparr>Session := empty_session\<lparr>privateKey := Some 10, publicKey := Some 11\<rparr>,
                 trace := [Api_deviceRegistration_add ''My Device'' [], Session_setupKeypair True,
                    Session_storeSession (empty_session\<lparr>privateKey := Some 10, publicKey := Some 11\<rparr>)]\<rparr>)"
    by (simp add: i t d empty_session_def)
  from registerDevice_failure [OF v, where err = bad_request and deviceName = "''My Device''"
      and store_try = "Inr ()" and keypair_outcome = "Inl network_failure" and store_catch = "Inr ()"
      and key_error = network_failure
      and r = "\<lparr>status = 400, data = Some (JObj [(''Error'', JArr [JObj [(''error_description'', JStr ''duplicate key'')]])])\<rparr>"]
    b b'
  have 4: "registerDevice by_presence ''My Device'' (Inl bad_request) (Inr ()) (Inl network_failure) (Inr ()) installed_client =
       (Inl network_failure,
        installed_client\<lparr>Session := empty_session\<lparr>publicKey := Some 1, privateKey := Some 2\<rparr>,
          trace := [Api_deviceRegistration_add ''My Device'' [], Session_setupKeypair True]\<rparr>)"
    by (simp add: i t d)
  from registerDevice_failure [OF v, where err = bad_request and deviceName = "''My Device''"
      and store_try = "Inr ()" and keypair_outcome = "Inr (10, 11)" and store_catch = "Inl network_failure"
      and priv = 10 and pub = 11 and store_error = network_failure
      and r = "\<lparr>status = 400, data = Some (JObj [(''Error'', JArr [JObj [(''error_description'', JStr ''duplicate key'')]])])\<rparr>"]
    b b'
  have 5: "fst (registerDevice by_presence ''My Device'' (Inl bad_request) (Inr ()) (Inr (10, 11)) (Inl network_failure) installed_client) =
       Inl network_failure"
    by simp
  show ?thesis
    unfolding 1 2 3 4 using 5 by simp
qed

section \<open>Failed session creation (C3)\<close>

text \<open>\<^verbatim>\<open>registerSession\<close> on a session that is not valid: the call, the rest of
  \<^verbatim>\<open>generateSession\<close>, the rest of \<^verbatim>\<open>registerSession\<close>. It ends with
  \<^verbatim>\<open>fetchingNewSession\<close> false.\<close>

lemma registerSession_steps:
  assumes "verifySessionInstallation sm (Session c) = False"
  shows "registerSession sm rt now add_outcome store_outcome c =
           registerSession_resume
             (fst (generateSession_resume rt now add_outcome store_outcome (snd (registerSession_call sm c))))
             (snd (generateSession_resume rt now add_outcome store_outcome (snd (registerSession_call sm c))))"
  using assms
  by (simp add: registerSession_def registerSession_call_def Let_def split: prod.splits)

lemma registerSession_resume_result:
  "fst (registerSession_resume outcome c) = (case outcome of Inl e \<Rightarrow> Inl e | Inr b \<Rightarrow> Inr True)"
  "fetchingNewSession (snd (registerSession_resume outcome c)) = None"
  by (simp_all add: registerSession_resume_def split: sum.splits)

lemma registerSession_marker:
  assumes "verifySessionInstallation sm (Session c) = False"
  shows "fetchingNewSession (snd (registerSession sm rt now add_outcome store_outcome c)) = None"
  unfolding registerSession_steps [OF assms] by (rule registerSession_resume_result(2))

text \<open>
  C3, as stated, fails on the name of the error kind: the object thrown carries the member
  \<^verbatim>\<open>INSTALLATION_HAS_SESSION\<close> of the error codes, not \<^verbatim>\<open>SESSION_CREATION_FAILED\<close>.
\<close>

theorem generateSession_error_code:
  "fst (generateSession plain_runtime 5000 (Inl network_failure) (Inr ()) new_client) =
     Inl (SessionError ''INSTALLATION_HAS_SESSION'' network_failure)
   \<and> fst (registerSession by_presence plain_runtime 5000 (Inl network_failure) (Inr ()) new_client) =
     Inl (SessionError ''INSTALLATION_HAS_SESSION'' network_failure)
   \<and> errorCode (SessionError ''INSTALLATION_HAS_SESSION'' network_failure) \<noteq> ''SESSION_CREATION_FAILED''"
  by (simp add: generateSession_def generateSession_resume_def apiErrorDescription_def network_failure_def
        registerSession_def registerSession_call_def registerSession_resume_def by_presence_def
        new_client_def empty_session_def Let_def)

text \<open>The whole effect of a failed request, when the logging of it does not fail.\<close>

lemma generateSession_resume_failed:
  assumes "apiErrorDescription err = Inr description"
  shows "generateSession_resume rt now (Inl err) store_outcome c =
           (Inl (SessionError ''INSTALLATION_HAS_SESSION'' err),
            c\<lparr>trace := trace c @
                 (case description of
                    None \<Rightarrow> []
                  | Some d \<Rightarrow> [Logger_error_text ''bunq API error: '' d])\<rparr>)"
  using assms by (cases description) (simp_all add: generateSession_resume_def emit_def)

lemma generateSession_failed:
  assumes "apiErrorDescription err = Inr description"
  shows "generateSession rt now (Inl err) store_outcome c =
           (Inl (SessionError ''INSTALLATION_HAS_SESSION'' err),
            c\<lparr>trace := trace c @
                 [Logger_debug '' === Attempting to fetch session'', Api_sessionServer_add] @
                 (case description of
                    None \<Rightarrow> []
                  | Some d \<Rightarrow> [Logger_error_text ''bunq API error: '' d])\<rparr>)"
  unfolding generateSession_def generateSession_resume_failed [OF assms]
  by (simp add: generateSession_call_def emit_def)

lemma registerSession_failed:
  assumes "apiErrorDescription err = Inr description"
    and "verifySessionInstallation sm (Session c) = False"
  shows "fst (registerSession sm rt now (Inl err) store_outcome c) =
           Inl (SessionError ''INSTALLATION_HAS_SESSION'' err)"
  unfolding registerSession_steps [OF assms(2)] generateSession_resume_failed [OF assms(1)]
  by (simp add: registerSession_resume_result)

text \<open>
  C3, amended. When the session-creation request fails with \<open>err\<close> and the description of
  \<open>err\<close> can be read for the log, \<^verbatim>\<open>generateSession\<close> throws the object
  \<^verbatim>\<open>{ errorCode: INSTALLATION_HAS_SESSION, error: err }\<close>; it has sent one request, no more;
  the session and the timers are as before, and nothing was stored. \<^verbatim>\<open>registerSession\<close>
  passes that error on with \<^verbatim>\<open>fetchingNewSession\<close> false, as it is after every outcome of
  \<^verbatim>\<open>generateSession\<close>, success included.
\<close>

theorem generateSession_failure:
  assumes "apiErrorDescription err = Inr description"
    and "verifySessionInstallation sm (Session c) = False"
  shows "fst (generateSession rt now (Inl err) store_outcome c) = Inl (SessionError ''INSTALLATION_HAS_SESSION'' err)
       \<and> error (SessionError ''INSTALLATION_HAS_SESSION'' err) = err
       \<and> session_requests (snd (generateSession rt now (Inl err) store_outcome c)) = Suc (session_requests c)
       \<and> Session (snd (generateSession rt now (Inl err) store_outcome c)) = Session c
       \<and> timers (snd (generateSession rt now (Inl err) store_outcome c)) = timers c
       \<and> trace (snd (generateSession rt now (Inl err) store_outcome c)) =
           trace c @ [Logger_debug '' === Attempting to fetch session'', Api_sessionServer_add] @
             (case description of None \<Rightarrow> [] | Some d \<Rightarrow> [Logger_error_text ''bunq API error: '' d])
       \<and> fst (registerSession sm rt now (Inl err) store_outcome c) = Inl (SessionError ''INSTALLATION_HAS_SESSION'' err)
       \<and> fetchingNewSession (snd (registerSession sm rt now (Inl err) store_outcome c)) = None
       \<and> fetchingNewSession (snd (registerSession sm rt now add_outcome store_outcome c)) = None"
proof -
  note g = generateSession_failed [OF assms(1), of rt now store_outcome c]
  have 1: "session_requests (snd (generateSession rt now (Inl err) store_outcome c)) = Suc (session_requests c)"
    unfolding g by (cases description) (simp_all add: session_requests_def)
  from 1 registerSession_failed [OF assms] registerSession_marker [OF assms(2)] show ?thesis
    unfolding g by simp
qed

theorem generateSession_failure_witness:
  "generateSession plain_runtime 5000 (Inl bad_request) (Inr ()) new_client =
     (Inl (SessionError ''INSTALLATION_HAS_SESSION'' bad_request),
      new_client\<lparr>trace := [Logger_debug '' === Attempting to fetch session'', Api_sessionServer_add,
                            Logger_error_text ''bunq API error: '' (Some (JStr ''duplicate key''))]\<rparr>)
   \<and> fst (registerSession by_presence plain_runtime 5000 (Inl bad_request) (Inr ()) new_client) =
       Inl (SessionError ''INSTALLATION_HAS_SESSION'' bad_request)
   \<and> fetchingNewSession (snd (registerSession by_presence plain_runtime 5000 (Inl bad_request) (Inr ()) new_client)) = None
   \<and> fst (registerSession by_presence plain_runtime 5000 (Inr person_response) (Inr ()) new_client) = Inr True
   \<and> fetchingNewSession (snd (registerSession by_presence plain_runtime 5000 (Inr person_response) (Inr ()) new_client)) = None"
proof -
  have a1: "apiErrorDescription bad_request = Inr (Some (Some (JStr ''duplicate key'')))"
    by (simp add: apiErrorDescription_def bad_request_def)
  have a2: "verifySessionInstallation by_presence (Session new_client) = False"
    by (simp add: by_presence_def new_client_def empty_session_def)
  have ok: "fst (registerSession by_presence plain_runtime 5000 (Inr person_response) (Inr ()) new_client) = Inr True"
    by (simp add: registerSession_def registerSession_call_def registerSession_resume_def run_defs sample_defs)
  note t = generateSession_failure [OF a1 a2, of plain_runtime 5000 "Inr ()" "Inr person_response"]
  have s: "snd (generateSession plain_runtime 5000 (Inl bad_request) (Inr ()) new_client) =
      new_client\<lparr>trace := [Logger_debug '' === Attempting to fetch session'', Api_sessionServer_add,
                            Logger_error_text ''bunq API error: '' (Some (JStr ''duplicate key''))]\<rparr>"
    using generateSession_failed [OF a1, of plain_runtime 5000 "Inr ()" new_client]
    by (simp add: new_client_def)
  from t ok s show ?thesis by (simp add: prod_eq_iff)
qed

section \<open>Overlapping calls of registerSession (C1)\<close>

text \<open>
  C1. The field \<^verbatim>\<open>fetchingNewSession\<close> is documented to hold the promise "to prevent
  duplicate requests", and \<^verbatim>\<open>registerSession\<close> stores and clears it but never tests it.
  So the claim does not hold of the code: a second call, made while the first waits and
  the session is still not valid, sends a second request and replaces the promise of the
  first; the callers then see the outcomes of their own requests, here a failure and a
  success, and the first to resume sets \<^verbatim>\<open>fetchingNewSession\<close> to false while the second
  request is in flight.
\<close>

theorem registerSession_two_callers:
  "fetchingNewSession first_call = Some 0
   \<and> session_requests first_call = 1
   \<and> verifySessionInstallation by_presence (Session first_call) = False
   \<and> fetchingNewSession second_call = Some 1
   \<and> session_requests second_call = 2
   \<and> fst first_resumed = Inl (SessionError ''INSTALLATION_HAS_SESSION'' network_failure)
   \<and> fetchingNewSession (snd first_resumed) = None
   \<and> fst second_resumed = Inr True"
proof -
  have c1: "first_call = new_client\<lparr>fetchingNewSession := Some 0, nextPromise := 1,
                trace := [Logger_debug '' === Attempting to fetch session'', Api_sessionServer_add]\<rparr>"
    by (simp add: first_call_def registerSession_call_def generateSession_call_def emit_def
          by_presence_def new_client_def empty_session_def Let_def)
  have c2: "second_call = new_client\<lparr>fetchingNewSession := Some 1, nextPromise := 2,
                trace := [Logger_debug '' === Attempting to fetch session'', Api_sessionServer_add,
                          Logger_debug '' === Attempting to fetch session'', Api_sessionServer_add]\<rparr>"
    by (simp add: second_call_def c1 registerSession_call_def generateSession_call_def emit_def
          by_presence_def new_client_def empty_session_def Let_def)
  have s1: "first_settled = (Inl (SessionError ''INSTALLATION_HAS_SESSION'' network_failure), second_call)"
    by (simp add: first_settled_def generateSession_resume_def apiErrorDescription_def network_failure_def)
  have r1: "first_resumed = (Inl (SessionError ''INSTALLATION_HAS_SESSION'' network_failure),
                             second_call\<lparr>fetchingNewSession := None\<rparr>)"
    by (simp add: first_resumed_def s1 registerSession_resume_def)
  have s2: "fst second_settled = Inr True"
    by (simp add: second_settled_def r1 c2 run_defs sample_defs)
  have r2: "fst second_resumed = Inr True"
    by (simp add: second_resumed_def s2 registerSession_resume_def)
  show ?thesis
    by (simp add: r1 r2) (simp add: c1 c2 session_requests_def by_presence_def new_client_def empty_session_def)
qed

text \<open>The two parts of a call, for every client: whatever \<^verbatim>\<open>fetchingNewSession\<close> holds, the
  first part sends a request on a session that is not valid.\<close>

lemma registerSession_call_and_resume:
  assumes "verifySessionInstallation sm (Session c) = False"
  shows "fst (registerSession_call sm c) = Some (nextPromise c)
       \<and> fetchingNewSession (snd (registerSession_call sm c)) = Some (nextPromise c)
       \<and> nextPromise (snd (registerSession_call sm c)) = Suc (nextPromise c)
       \<and> session_requests (snd (registerSession_call sm c)) = Suc (session_requests c)
       \<and> Session (snd (registerSession_call sm c)) = Session c
       \<and> registerSession_resume outcome c' =
           (case outcome of Inl e \<Rightarrow> Inl e | Inr b \<Rightarrow> Inr True, c'\<lparr>fetchingNewSession := None\<rparr>)"
  using assms
  by (simp add: registerSession_call_def registerSession_resume_def
        generateSession_call_def session_requests_def Let_def split: sum.splits)

section \<open>Propagation of errors (C9)\<close>

text \<open>
  C9, as stated, fails on \<^verbatim>\<open>destroySession\<close>: the failure of \<^verbatim>\<open>api.sessionServer.delete()\<close>
  is caught by an empty \<^verbatim>\<open>catch\<close>; it is neither thrown nor logged, and the function
  returns normally.
\<close>

theorem destroySession_swallows:
  "destroySession by_presence (Inl network_failure) (Inr empty_session) registered_client =
     (Inr (), registered_client\<lparr>Session := empty_session, trace := [Api_sessionServer_delete, Session_destroySession]\<rparr>)"
  by (simp add: destroySession_def clearExpiryTimer_def emit_def by_presence_def registered_client_def
        installed_client_def new_client_def empty_session_def Let_def)

lemma registerDevice_rethrown:
  assumes "verifyDeviceInstallation sm (Session c) = False"
  shows "fst (registerDevice sm deviceName (Inl e) store_try keypair_outcome store_catch c) =
           Inl (rethrown e keypair_outcome store_catch)"
    and "fst (registerDevice sm deviceName (Inr d) (Inl e) keypair_outcome store_catch c) =
           Inl (rethrown e keypair_outcome store_catch)"
  using assms
  by (simp_all add: registerDevice_def rethrown_def setupKeypair_def storeSession_def Let_def
        split: option.splits sum.splits prod.splits)

lemma generateSession_resume_store_fails:
  assumes "fst (generateSession_resume rt now (Inr r) (Inr ()) c) = Inr b"
  shows "fst (generateSession_resume rt now (Inr r) (Inl e) c) = Inl e"
  using assms
  by (simp add: generateSession_resume_def storeSession_def Let_def split: sum.splits prod.splits)

lemma registerSession_store_fails:
  assumes "verifySessionInstallation sm (Session c) = False"
    and "fst (registerSession sm rt now (Inr r) (Inr ()) c) = Inr b"
  shows "fst (registerSession sm rt now (Inr r) (Inl e) c) = Inl e"
proof -
  let ?c1 = "snd (registerSession_call sm c)"
  from assms(2) obtain b' where "fst (generateSession_resume rt now (Inr r) (Inr ()) ?c1) = Inr b'"
    unfolding registerSession_steps [OF assms(1)] registerSession_resume_result
    by (cases "fst (generateSession_resume rt now (Inr r) (Inr ()) ?c1)") simp_all
  then have "fst (generateSession_resume rt now (Inr r) (Inl e) ?c1) = Inl e"
    by (rule generateSession_resume_store_fails)
  then show ?thesis
    unfolding registerSession_steps [OF assms(1)] registerSession_resume_result by simp
qed

text \<open>
  C9, amended. The remote deletion in \<^verbatim>\<open>destroySession\<close> and the refresh fired by the timer
  apart, an error \<open>e\<close> of a collaborator call that an operation makes ends the operation
  with an error: with \<open>e\<close> in \<^verbatim>\<open>run\<close>, \<^verbatim>\<open>install\<close>, \<^verbatim>\<open>getUser\<close>, \<^verbatim>\<open>getUsers\<close>,
  \<^verbatim>\<open>createCredentials\<close>, \<^verbatim>\<open>checkCredentialStatus\<close>, \<^verbatim>\<open>destroySession\<close> (for
  \<^verbatim>\<open>Session.destroySession\<close>), \<^verbatim>\<open>destroyApiSession\<close> and for the storage in
  \<^verbatim>\<open>registerSession\<close>; for a failure \<open>err\<close> of the session-creation request whose
  description can be read for the log, with \<open>err\<close> wrapped under
  \<^verbatim>\<open>INSTALLATION_HAS_SESSION\<close>; in \<^verbatim>\<open>registerDevice\<close> with \<open>e\<close>, or with the error of the
  recovery from a status 400 when that fails in turn. The refresh fired by the timer logs
  \<open>e\<close> and does nothing else. The calls are made: the client is not installed and has a
  key, and \<^verbatim>\<open>registerSession\<close> on the response \<open>r\<close> succeeds when the storage does.
\<close>

theorem collaborator_errors_propagate:
  assumes "verifyInstallation sm (Session c) = False" and "publicKey (Session c) = Some k"
    and "verifyDeviceInstallation sm (Session c) = False"
    and "verifySessionInstallation sm (Session c) = False"
    and "apiErrorDescription err = Inr description"
    and "fst (registerSession sm rt now (Inr r) (Inr ()) c) = Inr b"
  shows "fst (run rt now key ips (Inl e) adapter_outcome c) = Inl e
       \<and> fst (run rt now key ips (Inr s) (Inl e) c) = Inl e
       \<and> fst (install sm rt (Inl e) pem_outcome store_outcome c) = Inl e
       \<and> fst (install sm rt (Inr ir) (Inl e) store_outcome c) = Inl e
       \<and> fst (install sm rt (Inr ir) (Inr sk) (Inl e) c) = Inl e
       \<and> fst (registerDevice sm deviceName (Inl e) store_try keypair_outcome store_catch c) =
           Inl (rethrown e keypair_outcome store_catch)
       \<and> fst (registerDevice sm deviceName (Inr d) (Inl e) keypair_outcome store_catch c) =
           Inl (rethrown e keypair_outcome store_catch)
       \<and> rethrown e (Inr keys) (Inr ()) = e
       \<and> fst (registerSession sm rt now (Inl err) store_outcome c) = Inl (SessionError ''INSTALLATION_HAS_SESSION'' err)
       \<and> fst (registerSession sm rt now (Inr r) (Inl e) c) = Inl e
       \<and> fst (getUsers True (Inl e) c) = Inl e
       \<and> fst (getUser userType True (Inl e) c) = Inl e
       \<and> fst (createCredentials (Inl e) c) = Inl e
       \<and> fst (checkCredentialStatus uuid (Inl e) c) = Inl e
       \<and> fst (destroySession sm delete_outcome (Inl e) c) = Inl e
       \<and> fst (destroyApiSession (Inl e) c) = Inl e
       \<and> expiryTimerCallback_settled (Inl e) c = emit (Logger_error e) c"
proof -
  have 1: "fst (run rt now key ips (Inl e) adapter_outcome c) = Inl e"
    and 2: "fst (run rt now key ips (Inr s) (Inl e) c) = Inl e"
    by (simp_all add: run_def Let_def)
  have 3: "fst (install sm rt (Inl e) pem_outcome store_outcome c) = Inl e"
    and 4: "fst (install sm rt (Inr ir) (Inl e) store_outcome c) = Inl e"
    and 5: "fst (install sm rt (Inr ir) (Inr sk) (Inl e) c) = Inl e"
    using assms(1,2) by (simp_all add: install_def storeSession_def Let_def)
  have 8: "rethrown e (Inr keys) (Inr ()) = e"
    by (simp add: rethrown_def split: option.splits)
  have 9: "fst (registerSession sm rt now (Inl err) store_outcome c) = Inl (SessionError ''INSTALLATION_HAS_SESSION'' err)"
    by (rule registerSession_failed [OF assms(5) assms(4)])
  have 10: "fst (registerSession sm rt now (Inr r) (Inl e) c) = Inl e"
    by (rule registerSession_store_fails [OF assms(4) assms(6)])
  have 11: "fst (getUsers True (Inl e) c) = Inl e"
    and 12: "fst (getUser userType True (Inl e) c) = Inl e"
    by (simp_all add: getUsers_def getUser_def getUsers_resume_def)
  have 13: "fst (createCredentials (Inl e) c) = Inl e"
    and 14: "fst (checkCredentialStatus uuid (Inl e) c) = Inl e"
    by (simp_all add: createCredentials_def checkCredentialStatus_def Let_def)
  have 15: "fst (destroySession sm delete_outcome (Inl e) c) = Inl e"
    and 16: "fst (destroyApiSession (Inl e) c) = Inl e"
    by (simp_all add: destroySession_def destroyApiSession_def Let_def)
  have 17: "expiryTimerCallback_settled (Inl e) c = emit (Logger_error e) c"
    by (simp add: expiryTimerCallback_settled_def getUsers_resume_def)
  from 1 2 3 4 5 registerDevice_rethrown [OF assms(3)] 8 9 10 11 12 13 14 15 16 17
  show ?thesis by simp
qed

theorem collaborator_errors_propagate_witness:
  "fst (install by_presence plain_runtime (Inl network_failure) (Inr 3) (Inr ()) keyed_client) = Inl network_failure
   \<and> fst (registerDevice by_presence ''My Device'' (Inl bad_request) (Inr ()) (Inl network_failure) (Inr ()) keyed_client) =
       Inl network_failure
   \<and> fst (registerSession by_presence plain_runtime 5000 (Inl bad_request) (Inr ()) keyed_client) =
       Inl (SessionError ''INSTALLATION_HAS_SESSION'' bad_request)
   \<and> fst (registerSession by_presence plain_runtime 5000 (Inr person_response) (Inl network_failure) keyed_client) =
       Inl network_failure
   \<and> fst (destroySession by_presence (Inr ()) (Inl network_failure) keyed_client) = Inl network_failure
   \<and> expiryTimerCallback_settled (Inl network_failure) keyed_client =
       keyed_client\<lparr>trace := [Logger_error network_failure]\<rparr>"
proof -
  have a1: "verifyInstallation by_presence (Session keyed_client) = False"
    and a3: "verifyDeviceInstallation by_presence (Session keyed_client) = False"
    and a4: "verifySessionInstallation by_presence (Session keyed_client) = False"
    and a2: "publicKey (Session keyed_client) = Some 1"
    by (simp_all add: by_presence_def keyed_client_def new_client_def empty_session_def)
  have a5: "apiErrorDescription bad_request = Inr (Some (Some (JStr ''duplicate key'')))"
    by (simp add: apiErrorDescription_def bad_request_def)
  have a6: "fst (registerSession by_presence plain_runtime 5000 (Inr person_response) (Inr ()) keyed_client) = Inr True"
    by (simp add: registerSession_def registerSession_call_def registerSession_resume_def run_defs
          sample_defs keyed_client_def)
  have r: "rethrown bad_request (Inl network_failure) (Inr ()) = network_failure"
    by (simp add: rethrown_def bad_request_def)
  have l: "emit (Logger_error network_failure) keyed_client = keyed_client\<lparr>trace := [Logger_error network_failure]\<rparr>"
    by (simp add: emit_def keyed_client_def new_client_def)
  note t = collaborator_errors_propagate [OF a1 a2 a3 a4 a5 a6, where e = network_failure
      and key = "''key''" and ips = "[]" and adapter_outcome = "Inr ()" and s = empty_session
      and pem_outcome = "Inr 3" and store_outcome = "Inr ()" and ir = "\<lparr>inst_serverPublicKey = ''pem'',
        inst_token = ''t'', inst_token_updated = ''u'', inst_token_created = ''c''\<rparr>" and sk = 3
      and deviceName = "''My Device''" and store_try = "Inr ()" and keypair_outcome = "Inr (10, 11)"
      and store_catch = "Inr ()" and d = None and keys = "(10, 11)" and userType = "''UserPerson''"
      and uuid = "''u''" and delete_outcome = "Inr ()"]
  note t2 = collaborator_errors_propagate [OF a1 a2 a3 a4 a5 a6, where e = bad_request
      and key = "''key''" and ips = "[]" and adapter_outcome = "Inr ()" and s = empty_session
      and pem_outcome = "Inr 3" and store_outcome = "Inr ()" and ir = "\<lparr>inst_serverPublicKey = ''pem'',
        inst_token = ''t'', inst_token_updated = ''u'', inst_token_created = ''c''\<rparr>" and sk = 3
      and deviceName = "''My Device''" and store_try = "Inr ()" and keypair_outcome = "Inl network_failure"
      and store_catch = "Inr ()" and d = None and keys = "(10, 11)" and userType = "''UserPerson''"
      and uuid = "''u''" and delete_outcome = "Inr ()"]
  from t t2 r l show ?thesis by simp
qed

end
